theory Spec2Isabelle
  imports Complex_Main
begin

section \<open>Shallow embedding of \<open>pybadges/__init__.py\<close>\<close>

text \<open>
  Python strings and byte strings are both modelled as \<open>char list\<close>: one \<open>char\<close> per
  code unit, code points below 256. The libraries the module calls (requests, urllib,
  filetype, mimetypes, jinja2, the text measurer, the file system) are parameters of the
  model, collected in the record \<open>world\<close>; the string operations of the Python standard
  library that the module uses (\<open>startswith\<close>, \<open>split\<close>, \<open>lower\<close>, \<open>strip\<close>, slicing,
  \<open>in\<close>, \<open>base64.b64encode\<close>) are written out.
\<close>

subsection \<open>Python values\<close>

type_synonym bytes = "char list"

text \<open>The exceptions that leave the module. \<open>ValueError\<close> carries its message.\<close>

datatype error =
    ValueError string
  | HTTPError nat
  | RequestException string
  | OSError string
  | ExpatError
  | AttributeError

text \<open>Truthiness of an \<open>Optional[str]\<close>: \<open>None\<close> and the empty string are falsy.\<close>

fun truthy :: "string option \<Rightarrow> bool" where
  "truthy None = False"
| "truthy (Some s) = (s \<noteq> [])"

text \<open>\<open>s.startswith(p)\<close>.\<close>

definition startswith :: "string \<Rightarrow> string \<Rightarrow> bool" where
  "startswith s p = (take (length p) s = p)"

text \<open>\<open>s.split(c, 1)\<close>: the whole string when \<open>c\<close> does not occur, otherwise the part
  before the first \<open>c\<close> and the part after it.\<close>

definition split1 :: "char \<Rightarrow> string \<Rightarrow> string list" where
  "split1 c s =
     (case dropWhile (\<lambda>x. x \<noteq> c) s of
        [] \<Rightarrow> [s]
      | _ # rest \<Rightarrow> [takeWhile (\<lambda>x. x \<noteq> c) s, rest])"

text \<open>\<open>lower()\<close> on ASCII letters; every other code unit is kept.\<close>

definition lower_char :: "char \<Rightarrow> char" where
  "lower_char c =
     (if 65 \<le> (of_char c :: nat) \<and> (of_char c :: nat) \<le> 90
      then char_of ((of_char c :: nat) + 32) else c)"

definition lower :: "string \<Rightarrow> string" where
  "lower s = map lower_char s"

text \<open>\<open>needle in haystack\<close> for (byte) strings.\<close>

fun contains :: "string \<Rightarrow> string \<Rightarrow> bool" where
  "contains [] needle = (needle = [])"
| "contains (x # xs) needle = (startswith (x # xs) needle \<or> contains xs needle)"

subsection \<open>The colour table\<close>

definition NAME_TO_COLOR :: "(string \<times> string) list" where
  "NAME_TO_COLOR =
    [(''brightgreen'', ''#4c1''),
     (''green'', ''#97CA00''),
     (''yellow'', ''#dfb317''),
     (''yellowgreen'', ''#a4a61d''),
     (''orange'', ''#fe7d37''),
     (''red'', ''#e05d44''),
     (''blue'', ''#007ec6''),
     (''grey'', ''#555''),
     (''gray'', ''#555''),
     (''lightgrey'', ''#9f9f9f''),
     (''lightgray'', ''#9f9f9f''),
     (''critical'', ''#e05d44''),
     (''important'', ''#fe7d37''),
     (''success'', ''#4c1''),
     (''informational'', ''#007ec6''),
     (''inactive'', ''#9f9f9f'')]"

text \<open>\<open>_NAME_TO_COLOR.get(name, name)\<close>.\<close>

definition color_get :: "string \<Rightarrow> string" where
  "color_get name = (case map_of NAME_TO_COLOR name of None \<Rightarrow> name | Some v \<Rightarrow> v)"

subsection \<open>\<open>base64.b64encode\<close>\<close>

definition b64_alphabet :: string where
  "b64_alphabet = ''ABCDEFGHIJKLMNOPQRSTUVWXYZabcdefghijklmnopqrstuvwxyz0123456789+/''"

definition b64_digit :: "nat \<Rightarrow> char" where
  "b64_digit i = b64_alphabet ! (i mod 64)"

fun b64encode :: "bytes \<Rightarrow> string" where
  "b64encode [] = []"
| "b64encode [a] =
     (let n = (of_char a :: nat) * 65536
      in [b64_digit (n div 262144), b64_digit (n div 4096), CHR ''='', CHR ''=''])"
| "b64encode [a, b] =
     (let n = (of_char a :: nat) * 65536 + (of_char b :: nat) * 256
      in [b64_digit (n div 262144), b64_digit (n div 4096), b64_digit (n div 64), CHR ''=''])"
| "b64encode (a # b # c # rest) =
     (let n = (of_char a :: nat) * 65536 + (of_char b :: nat) * 256 + (of_char c :: nat)
      in [b64_digit (n div 262144), b64_digit (n div 4096), b64_digit (n div 64), b64_digit n]
         @ b64encode rest)"

subsection \<open>The libraries and the outside world\<close>

text \<open>What \<open>requests.get\<close> returns, as far as the module reads it:
  \<open>content_type\<close> is \<open>resp.headers.get("content-type")\<close>.\<close>

record response =
  status_code :: nat
  content_type :: "string option"
  content :: bytes

text \<open>The keyword arguments of \<open>template.render\<close>.\<close>

record render_fields =
  left_text :: string
  right_text :: "string option"
  left_text_width :: real
  right_text_width :: "real option"
  left_link :: "string option"
  right_link :: "string option"
  whole_link :: "string option"
  center_link :: "string option"
  logo :: "string option"
  left_color :: string
  right_color :: string
  center_color :: "string option"
  left_title :: "string option"
  right_title :: "string option"
  center_title :: "string option"
  whole_title :: "string option"
  right_image :: "string option"
  center_image :: "string option"
  id_suffix :: string

text \<open>The DOM of \<open>xml.dom.minidom\<close>: the node types the module distinguishes (text,
  element) and the other node types that can occur below an element. A document is the
  list of its child nodes.\<close>

datatype node =
    Element string "(string \<times> string) list" "node list"
  | Text string
  | CDATASection string
  | Comment string
  | ProcessingInstruction string string

text \<open>
  Every library call is a field: \<open>requests.get\<close>, the scheme of \<open>urllib.parse.urlparse\<close>,
  \<open>open(path, "rb").read()\<close>, the MIME type of \<open>filetype.guess\<close> (\<open>None\<close> when nothing is
  recognised), the first component of \<open>mimetypes.guess_type\<close>, the default text measurer,
  the rendering of the template \<open>badge-template-full.svg\<close>, and \<open>minidom.parseString\<close>
  (\<open>None\<close> when the text is not well-formed). A library call that raises returns \<open>Inl\<close>.
\<close>

record world =
  requests_get :: "string \<Rightarrow> error + response"
  urlparse_scheme :: "string \<Rightarrow> error + string"
  read_file :: "string \<Rightarrow> error + bytes"
  filetype_guess :: "bytes \<Rightarrow> string option"
  mimetypes_guess_type :: "string \<Rightarrow> string option"
  default_measurer :: "string \<Rightarrow> real"
  template_render :: "render_fields \<Rightarrow> string"
  parseString :: "string \<Rightarrow> node list option"

text \<open>
  Effects are recorded in a trace: every call of \<open>_embed_image\<close>, every HTTP request and
  every file read appends an event. A computation returns its result, or the exception
  that ended it, together with the events it produced.
\<close>

datatype event = EmbedImage string | HttpGet string | FileRead string

type_synonym 'a io = "(error + 'a) \<times> event list"

definition bind_io :: "'a io \<Rightarrow> ('a \<Rightarrow> 'b io) \<Rightarrow> 'b io" where
  "bind_io m f =
     (case m of
        (Inl e, t) \<Rightarrow> (Inl e, t)
      | (Inr x, t) \<Rightarrow> (case f x of (r, t') \<Rightarrow> (r, t @ t')))"

subsection \<open>Image resolution\<close>

text \<open>The messages of the \<open>ValueError\<close>s raised during image resolution.\<close>

definition msg_no_content_type :: string where
  \<open>msg_no_content_type = ''no "Content-Type" header''\<close>

definition msg_expected_image :: "string \<Rightarrow> string" where
  \<open>msg_expected_image major = ''expected an image, got "'' @ major @ ''"''\<close>

definition msg_unsupported_scheme :: "string \<Rightarrow> string" where
  \<open>msg_unsupported_scheme scheme = ''unsupported scheme "'' @ scheme @ ''"''\<close>

definition msg_not_determined :: string where
  "msg_not_determined = ''not able to determine file type''"

text \<open>The message of the \<open>ValueError\<close> that Python raises when the right-hand side of
  \<open>major, minor = ...\<close> has one element.\<close>

definition msg_unpack :: string where
  "msg_unpack = ''not enough values to unpack (expected 2, got 1)''"

text \<open>\<open>resp.raise_for_status()\<close> of requests raises \<open>HTTPError\<close> for the status codes 400
  to 599.\<close>

definition fetch_remote_image :: "world \<Rightarrow> string \<Rightarrow> (bytes \<times> string) io" where
  "fetch_remote_image w url =
     (case requests_get w url of
        Inl e \<Rightarrow> (Inl e, [HttpGet url])
      | Inr resp \<Rightarrow>
          (if 400 \<le> status_code resp \<and> status_code resp < 600
             then Inl (HTTPError (status_code resp))
           else if \<not> truthy (response.content_type resp)
             then Inl (ValueError msg_no_content_type)
           else
             (case split1 CHR ''/'' (the (response.content_type resp)) of
                [major, minor] \<Rightarrow>
                  if lower major \<noteq> ''image''
                    then Inl (ValueError (msg_expected_image major))
                  else Inr (content resp, the (response.content_type resp))
              | _ \<Rightarrow> Inl (ValueError msg_unpack)),
           [HttpGet url]))"

definition fetch_local_image_and_mime :: "world \<Rightarrow> string \<Rightarrow> (bytes \<times> string) io" where
  "fetch_local_image_and_mime w path =
     (case read_file w path of
        Inl e \<Rightarrow> (Inl e, [FileRead path])
      | Inr data \<Rightarrow>
          (case filetype_guess w data of
             Some mime \<Rightarrow>
               if \<not> startswith mime ''image/''
                 then Inl (ValueError (msg_expected_image (hd (split1 CHR ''/'' mime))))
               else Inr (data, mime)
           | None \<Rightarrow>
               if contains (lower (take 500 data)) ''<svg''
                 then Inr (data, ''image/svg+xml'')
               else if truthy (mimetypes_guess_type w path)
                 then (let guessed_mime = the (mimetypes_guess_type w path);
                           major = hd (split1 CHR ''/'' guessed_mime)
                       in if major \<noteq> ''image''
                            then Inl (ValueError (msg_expected_image major))
                          else Inr (data, guessed_mime))
               else Inl (ValueError msg_not_determined),
           [FileRead path]))"

definition embed_image :: "world \<Rightarrow> string \<Rightarrow> string io" where
  "embed_image w url =
     (if startswith url ''data:'' then (Inr url, [EmbedImage url])
      else
        (case urlparse_scheme w url of
           Inl e \<Rightarrow> (Inl e, [EmbedImage url])
         | Inr scheme \<Rightarrow>
             bind_io
               (Inr (), [EmbedImage url])
               (\<lambda>_. bind_io
                  (if scheme = ''http'' \<or> scheme = ''https'' then fetch_remote_image w url
                   else if scheme \<noteq> []
                     then (Inl (ValueError (msg_unsupported_scheme scheme)), [])
                   else fetch_local_image_and_mime w url)
                  (\<lambda>(image_data, mime).
                     (Inr (''data:'' @ mime @ '';base64,'' @ b64encode image_data), [])))))"

subsection \<open>SVG normalization\<close>

text \<open>\<open>str.isspace\<close> on code points below 256, and \<open>str.strip()\<close>.\<close>

definition py_isspace :: "char \<Rightarrow> bool" where
  "py_isspace c = ((of_char c :: nat) \<in> {9, 10, 11, 12, 13, 28, 29, 30, 31, 32, 133, 160})"

definition strip :: "string \<Rightarrow> string" where
  "strip s = rev (dropWhile py_isspace (rev (dropWhile py_isspace s)))"

text \<open>\<open>_remove_blanks(node)\<close>, as a function from the child nodes of \<open>node\<close> to the child
  nodes it leaves behind.\<close>

fun remove_blanks :: "node list \<Rightarrow> node list" where
  "remove_blanks [] = []"
| "remove_blanks (Text v # xs) = Text (if v \<noteq> [] then strip v else v) # remove_blanks xs"
| "remove_blanks (Element tag attrs cs # xs) =
     Element tag attrs (remove_blanks cs) # remove_blanks xs"
| "remove_blanks (x # xs) = x # remove_blanks xs"

text \<open>\<open>Node.normalize()\<close> of minidom: \<open>L\<close> is the list of the children kept so far. An
  empty text node is dropped, a text node that follows a kept text node is merged into
  it, and elements are normalized recursively.\<close>

fun is_text :: "node \<Rightarrow> bool" where
  "is_text (Text _) = True"
| "is_text _ = False"

fun node_data :: "node \<Rightarrow> string" where
  "node_data (Text d) = d"
| "node_data (CDATASection d) = d"
| "node_data (Comment d) = d"
| "node_data (ProcessingInstruction _ d) = d"
| "node_data (Element _ _ _) = []"

fun normalize :: "node list \<Rightarrow> node list \<Rightarrow> node list" where
  "normalize L [] = L"
| "normalize L (Text d # rest) =
     (if d = [] then normalize L rest
      else if L \<noteq> [] \<and> is_text (last L)
        then normalize (butlast L @ [Text (node_data (last L) @ d)]) rest
      else normalize (L @ [Text d]) rest)"
| "normalize L (Element tag attrs cs # rest) =
     normalize (L @ [Element tag attrs (normalize [] cs)]) rest"
| "normalize L (x # rest) = normalize (L @ [x]) rest"

text \<open>\<open>_write_data\<close> of minidom (CPython 3.11): four replacements in sequence.\<close>

definition replace_char :: "char \<Rightarrow> string \<Rightarrow> string \<Rightarrow> string" where
  "replace_char c r s = concat (map (\<lambda>x. if x = c then r else [x]) s)"

definition write_data :: "string \<Rightarrow> string" where
  "write_data d =
     replace_char CHR ''>'' ''&gt;''
       (replace_char CHR 0x22 ''&quot;''
          (replace_char CHR ''<'' ''&lt;''
             (replace_char CHR ''&'' ''&amp;'' d)))"

definition write_attr :: "string \<times> string \<Rightarrow> string" where
  "write_attr a = '' '' @ fst a @ [CHR ''='', CHR 0x22] @ write_data (snd a) @ [CHR 0x22]"

text \<open>\<open>node.toxml()\<close>: \<open>writexml\<close> with empty indentation and newline strings. A CDATA
  section that contains \<open>]]>\<close> and a comment that contains \<open>--\<close> raise \<open>ValueError\<close>.\<close>

definition msg_cdata :: string where
  "msg_cdata = [CHR 0x27] @ '']]>'' @ [CHR 0x27] @ '' not allowed in a CDATA section''"

definition msg_comment :: string where
  "msg_comment = [CHR 0x27] @ ''--'' @ [CHR 0x27] @ '' is not allowed in a comment node''"

fun toxml :: "node \<Rightarrow> error + string"
  and toxml_list :: "node list \<Rightarrow> error + string" where
  "toxml (Element tag attrs cs) =
     (if cs = [] then Inr (''<'' @ tag @ concat (map write_attr attrs) @ ''/>'')
      else (case toxml_list cs of
              Inl e \<Rightarrow> Inl e
            | Inr body \<Rightarrow>
                Inr (''<'' @ tag @ concat (map write_attr attrs) @ ''>'' @ body
                     @ ''</'' @ tag @ ''>'')))"
| "toxml (Text d) = Inr (write_data d)"
| "toxml (CDATASection d) =
     (if contains d '']]>'' then Inl (ValueError msg_cdata)
      else Inr (''<![CDATA['' @ d @ '']]>''))"
| "toxml (Comment d) =
     (if contains d ''--'' then Inl (ValueError msg_comment)
      else Inr (''<!--'' @ d @ ''-->''))"
| "toxml (ProcessingInstruction target d) = Inr (''<?'' @ target @ '' '' @ d @ ''?>'')"
| "toxml_list [] = Inr []"
| "toxml_list (x # xs) =
     (case toxml x of
        Inl e \<Rightarrow> Inl e
      | Inr a \<Rightarrow> (case toxml_list xs of Inl e \<Rightarrow> Inl e | Inr b \<Rightarrow> Inr (a @ b)))"

text \<open>\<open>xml.documentElement\<close>: the first element among the children of the document.\<close>

fun documentElement :: "node list \<Rightarrow> node option" where
  "documentElement [] = None"
| "documentElement (Element tag attrs cs # xs) = Some (Element tag attrs cs)"
| "documentElement (x # xs) = documentElement xs"

text \<open>The last four lines of \<open>badge\<close>, with the XML reader as a parameter: parse, strip
  the text nodes, normalize, serialize the document element. Calling \<open>toxml\<close> on \<open>None\<close>
  raises \<open>AttributeError\<close>.\<close>

definition normalize_svg :: "(string \<Rightarrow> node list option) \<Rightarrow> string \<Rightarrow> error + string" where
  "normalize_svg parse svg =
     (case parse svg of
        None \<Rightarrow> Inl ExpatError
      | Some xml \<Rightarrow>
          (case documentElement (normalize [] (remove_blanks xml)) of
             None \<Rightarrow> Inl AttributeError
           | Some e \<Rightarrow> toxml e))"

subsection \<open>\<open>badge\<close>\<close>

record badge_request =
  left_text :: string
  right_text :: "string option"
  left_link :: "string option"
  right_link :: "string option"
  center_link :: "string option"
  whole_link :: "string option"
  logo :: "string option"
  left_color :: string
  right_color :: string
  center_color :: "string option"
  measurer :: "(string \<Rightarrow> real) option"
  left_title :: "string option"
  right_title :: "string option"
  center_title :: "string option"
  whole_title :: "string option"
  right_image :: "string option"
  center_image :: "string option"
  embed_logo :: bool
  embed_right_image :: bool
  embed_center_image :: bool
  id_suffix :: string

definition msg_whole_link :: string where
  "msg_whole_link = ''whole_link may not bet set with left_link, right_link, or center_link''"

definition msg_center_image :: string where
  "msg_center_image = ''cannot have a center_image without a right element''"

definition msg_center_color :: string where
  "msg_center_color = ''must have both a center_image and a center_color''"

text \<open>\<open>if x and flag: x = _embed_image(x)\<close>.\<close>

definition embed_if :: "world \<Rightarrow> string option \<Rightarrow> bool \<Rightarrow> string option io" where
  "embed_if w x flag =
     (if truthy x \<and> flag
        then bind_io (embed_image w (the x)) (\<lambda>u. (Inr (Some u), []))
      else (Inr x, []))"

text \<open>\<open>badge\<close> up to the call of \<open>template.render\<close>: the result is the keyword arguments
  of that call.\<close>

definition badge_fields :: "world \<Rightarrow> badge_request \<Rightarrow> render_fields io" where
  "badge_fields w r =
     (let measurer = (case measurer r of None \<Rightarrow> default_measurer w | Some m \<Rightarrow> m) in
      if (truthy (left_link r) \<or> truthy (right_link r) \<or> truthy (center_link r))
          \<and> truthy (whole_link r)
        then (Inl (ValueError msg_whole_link), [])
      else if truthy (center_image r) \<and> \<not> (truthy (right_image r) \<or> truthy (right_text r))
        then (Inl (ValueError msg_center_image), [])
      else if (truthy (center_image r) \<and> \<not> truthy (center_color r))
           \<or> (\<not> truthy (center_image r) \<and> truthy (center_color r))
        then (Inl (ValueError msg_center_color), [])
      else
        bind_io (embed_if w (logo r) (embed_logo r)) (\<lambda>logo.
        bind_io (embed_if w (right_image r) (embed_right_image r)) (\<lambda>right_image.
        bind_io (embed_if w (center_image r) (embed_center_image r)) (\<lambda>center_image.
          (let center_color =
                 (if truthy (center_color r) then Some (color_get (the (center_color r)))
                  else center_color r);
               right_text_width =
                 (if truthy (right_text r) then Some (measurer (the (right_text r)) / 10.0)
                  else None)
           in (Inr \<lparr>render_fields.left_text = left_text r,
                     render_fields.right_text = right_text r,
                     left_text_width = measurer (left_text r) / 10.0,
                     right_text_width = right_text_width,
                     render_fields.left_link = left_link r,
                     render_fields.right_link = right_link r,
                     render_fields.whole_link = whole_link r,
                     render_fields.center_link = center_link r,
                     render_fields.logo = logo,
                     render_fields.left_color = color_get (left_color r),
                     render_fields.right_color = color_get (right_color r),
                     render_fields.center_color = center_color,
                     render_fields.left_title = left_title r,
                     render_fields.right_title = right_title r,
                     render_fields.center_title = center_title r,
                     render_fields.whole_title = whole_title r,
                     render_fields.right_image = right_image,
                     render_fields.center_image = center_image,
                     render_fields.id_suffix = id_suffix r\<rparr>, []))))))"

definition badge :: "world \<Rightarrow> badge_request \<Rightarrow> string io" where
  "badge w r =
     bind_io (badge_fields w r)
       (\<lambda>fields. (normalize_svg (parseString w) (template_render w fields), []))"

subsection \<open>A model of the XML reader on a fragment of XML\<close>

text \<open>
  \<open>xml_parse\<close> models \<open>minidom.parseString\<close> on documents that consist of one element,
  with white space before and after it, where a tag is \<open><name>\<close>, \<open></name>\<close> or
  \<open><name/>\<close> (ASCII names without prefix, no attributes) and character data holds legal
  characters other than \<open>>\<close>, the five predefined entities and numeric character
  references below 256. As the XML reader does, it first turns every line end (CR LF, or
  CR alone) into LF; a character reference is not affected by that. On every other
  input it returns \<open>None\<close>. The recursion is bounded by fuel, which \<open>xml_parse\<close> sets
  to more than the length of the input.
\<close>

definition CR :: char where
  "CR = CHR 0x0D"

definition LF :: char where
  "LF = CHR 0x0A"

fun eol :: "string \<Rightarrow> string" where
  "eol [] = []"
| "eol [c] = [if c = CR then LF else c]"
| "eol (c # d # cs) =
     (if c = CR \<and> d = LF then LF # eol cs
      else if c = CR then LF # eol (d # cs)
      else c # eol (d # cs))"

definition xml_char :: "char \<Rightarrow> bool" where
  "xml_char c = ((of_char c :: nat) \<in> {9, 10, 13} \<or> 32 \<le> (of_char c :: nat))"

definition xml_space :: "char \<Rightarrow> bool" where
  "xml_space c = ((of_char c :: nat) \<in> {9, 10, 13, 32})"

definition is_letter :: "char \<Rightarrow> bool" where
  "is_letter c = ((65 \<le> (of_char c :: nat) \<and> (of_char c :: nat) \<le> 90)
                  \<or> (97 \<le> (of_char c :: nat) \<and> (of_char c :: nat) \<le> 122))"

definition is_digit :: "char \<Rightarrow> bool" where
  "is_digit c = (48 \<le> (of_char c :: nat) \<and> (of_char c :: nat) \<le> 57)"

definition name_start :: "char \<Rightarrow> bool" where
  "name_start c = (is_letter c \<or> c = CHR ''_'')"

definition name_char :: "char \<Rightarrow> bool" where
  "name_char c = (is_letter c \<or> is_digit c \<or> c \<in> {CHR ''_'', CHR ''.'', CHR ''-''})"

definition hex_digit :: "char \<Rightarrow> nat option" where
  "hex_digit c =
     (let n = (of_char c :: nat) in
      if 48 \<le> n \<and> n \<le> 57 then Some (n - 48)
      else if 65 \<le> n \<and> n \<le> 70 then Some (n - 55)
      else if 97 \<le> n \<and> n \<le> 102 then Some (n - 87)
      else None)"

fun number :: "nat \<Rightarrow> nat \<Rightarrow> string \<Rightarrow> nat option" where
  "number base acc [] = Some acc"
| "number base acc (c # cs) =
     (case hex_digit c of
        None \<Rightarrow> None
      | Some d \<Rightarrow> if d < base then number base (acc * base + d) cs else None)"

definition char_ref :: "nat \<Rightarrow> string \<Rightarrow> char option" where
  "char_ref base ds =
     (if ds = [] then None
      else (case number base 0 ds of
              None \<Rightarrow> None
            | Some n \<Rightarrow> if n < 256 \<and> xml_char (char_of n) then Some (char_of n) else None))"

definition decode_ref :: "string \<Rightarrow> char option" where
  "decode_ref name =
     (if name = ''amp'' then Some CHR ''&''
      else if name = ''lt'' then Some CHR ''<''
      else if name = ''gt'' then Some CHR ''>''
      else if name = ''quot'' then Some (CHR 0x22)
      else if name = ''apos'' then Some (CHR 0x27)
      else if startswith name ''#x'' then char_ref 16 (drop 2 name)
      else if startswith name ''#'' then char_ref 10 (drop 1 name)
      else None)"

fun parse_text :: "nat \<Rightarrow> string \<Rightarrow> (string \<times> string) option" where
  "parse_text 0 s = None"
| "parse_text (Suc n) [] = Some ([], [])"
| "parse_text (Suc n) (c # cs) =
     (if c = CHR ''<'' then Some ([], c # cs)
      else if c = CHR ''&'' then
        (case dropWhile (\<lambda>x. x \<noteq> CHR '';'') cs of
           [] \<Rightarrow> None
         | _ # rest \<Rightarrow>
             (case decode_ref (takeWhile (\<lambda>x. x \<noteq> CHR '';'') cs) of
                None \<Rightarrow> None
              | Some ch \<Rightarrow>
                  (case parse_text n rest of
                     None \<Rightarrow> None
                   | Some (t, rest') \<Rightarrow> Some (ch # t, rest'))))
      else if c = CHR ''>'' \<or> \<not> xml_char c then None
      else (case parse_text n cs of
              None \<Rightarrow> None
            | Some (t, rest) \<Rightarrow> Some (c # t, rest)))"

fun parse_content :: "nat \<Rightarrow> string \<Rightarrow> (node list \<times> string) option"
  and parse_element :: "nat \<Rightarrow> string \<Rightarrow> (node \<times> string) option" where
  "parse_content 0 s = None"
| "parse_content (Suc n) s =
     (if s = [] \<or> startswith s ''</'' then Some ([], s)
      else if hd s = CHR ''<'' then
        (case parse_element n (tl s) of
           None \<Rightarrow> None
         | Some (e, rest) \<Rightarrow>
             (case parse_content n rest of
                None \<Rightarrow> None
              | Some (ns, rest') \<Rightarrow> Some (e # ns, rest')))
      else
        (case parse_text (Suc (length s)) s of
           None \<Rightarrow> None
         | Some (t, rest) \<Rightarrow>
             (case parse_content n rest of
                None \<Rightarrow> None
              | Some (ns, rest') \<Rightarrow> Some (Text t # ns, rest'))))"
| "parse_element 0 s = None"
| "parse_element (Suc n) s =
     (let name = takeWhile name_char s; rest = dropWhile name_char s in
      if name = [] \<or> \<not> name_start (hd name) then None
      else if startswith rest ''/>'' then Some (Element name [] [], drop 2 rest)
      else if startswith rest ''>'' then
        (case parse_content n (drop 1 rest) of
           None \<Rightarrow> None
         | Some (cs, rest') \<Rightarrow>
             if startswith rest' (''</'' @ name @ ''>'')
               then Some (Element name [] cs, drop (length name + 3) rest')
             else None)
      else None)"

definition xml_parse :: "string \<Rightarrow> node list option" where
  "xml_parse s =
     (case dropWhile xml_space (eol s) of
        [] \<Rightarrow> None
      | c # r \<Rightarrow>
          if c \<noteq> CHR ''<'' then None
          else (case parse_element (Suc (length s)) r of
                  None \<Rightarrow> None
                | Some (e, rest) \<Rightarrow> if list_all xml_space rest then Some [e] else None))"

subsection \<open>A concrete world and concrete requests\<close>

text \<open>The scheme of a reference as \<open>urlparse\<close> finds it in the simple cases: the text
  before the first colon, lowercased, when it starts with a letter and holds letters,
  digits, \<open>+\<close>, \<open>-\<close> and \<open>.\<close> only.\<close>

definition example_scheme :: "string \<Rightarrow> error + string" where
  "example_scheme url =
     (let s = takeWhile (\<lambda>x. x \<noteq> CHR '':'') url in
      if CHR '':'' \<in> set url \<and> s \<noteq> [] \<and> is_letter (hd s)
         \<and> list_all (\<lambda>c. is_letter c \<or> is_digit c \<or> c \<in> {CHR ''+'', CHR ''-'', CHR ''.''}) s
        then Inr (lower s)
      else Inr [])"

definition example_get :: "string \<Rightarrow> error + response" where
  "example_get url =
     (if url = ''http://example.com/logo.png''
        then Inr \<lparr>status_code = 200, content_type = Some ''image/png'', content = ''PNG''\<rparr>
      else if url = ''http://example.com/missing''
        then Inr \<lparr>status_code = 404, content_type = Some ''image/png'', content = ''gone''\<rparr>
      else if url = ''http://example.com/plain''
        then Inr \<lparr>status_code = 200, content_type = Some ''text/plain'', content = ''hi''\<rparr>
      else if url = ''http://example.com/upper''
        then Inr \<lparr>status_code = 200, content_type = Some ''IMAGE/PNG'', content = ''PNG''\<rparr>
      else if url = ''http://example.com/bare''
        then Inr \<lparr>status_code = 200, content_type = Some ''image'', content = ''PNG''\<rparr>
      else if url = ''http://example.com/untyped''
        then Inr \<lparr>status_code = 200, content_type = None, content = ''PNG''\<rparr>
      else Inl (RequestException ''connection failed''))"

definition example_read :: "string \<Rightarrow> error + bytes" where
  "example_read path =
     (if path = ''drawing.txt'' then Inr ''<SVG width=1></SVG>''
      else if path = ''pic.txt'' then Inr (CHR 0x89 # ''PNG data'')
      else if path = ''doc.png'' then Inr ''%PDF-1.4 <svg''
      else if path = ''photo.png'' then Inr ''raw pixels''
      else if path = ''notes.txt'' then Inr ''plain text''
      else if path = ''blob'' then Inr ''raw bytes''
      else Inl (OSError ''No such file or directory''))"

definition example_filetype :: "bytes \<Rightarrow> string option" where
  "example_filetype data =
     (if startswith data (CHR 0x89 # ''PNG'') then Some ''image/png''
      else if startswith data ''%PDF'' then Some ''application/pdf''
      else None)"

definition endswith :: "string \<Rightarrow> string \<Rightarrow> bool" where
  "endswith s p = startswith (rev s) (rev p)"

definition example_mimetypes :: "string \<Rightarrow> string option" where
  "example_mimetypes path =
     (if endswith path ''.png'' then Some ''image/png''
      else if endswith path ''.svg'' then Some ''image/svg+xml''
      else if endswith path ''.txt'' then Some ''text/plain''
      else None)"

definition example_render :: "render_fields \<Rightarrow> string" where
  "example_render f =
     ''<svg><text> '' @ render_fields.left_text f @ '' </text>''
     @ (case render_fields.right_text f of None \<Rightarrow> [] | Some t \<Rightarrow> ''<text>'' @ t @ ''</text>'')
     @ ''</svg>''"

definition example_world :: world where
  "example_world =
     \<lparr>requests_get = example_get,
      urlparse_scheme = example_scheme,
      read_file = example_read,
      filetype_guess = example_filetype,
      mimetypes_guess_type = example_mimetypes,
      default_measurer = (\<lambda>s. real (length s) * 65),
      template_render = example_render,
      parseString = xml_parse\<rparr>"

text \<open>A second world: no network, no files, another parser.\<close>

definition offline_world :: world where
  "offline_world =
     \<lparr>requests_get = (\<lambda>_. Inl (RequestException ''offline'')),
      urlparse_scheme = example_scheme,
      read_file = (\<lambda>_. Inl (OSError ''Permission denied'')),
      filetype_guess = (\<lambda>_. None),
      mimetypes_guess_type = (\<lambda>_. None),
      default_measurer = (\<lambda>s. real (length s) * 65),
      template_render = example_render,
      parseString = xml_parse\<rparr>"

text \<open>\<open>badge(left_text='build', right_text='passing', right_color='green')\<close>.\<close>

definition example_request :: badge_request where
  "example_request =
     \<lparr>left_text = ''build'', right_text = Some ''passing'',
      left_link = None, right_link = None, center_link = None, whole_link = None,
      logo = None, left_color = ''#555'', right_color = ''green'', center_color = None,
      measurer = None,
      left_title = None, right_title = None, center_title = None, whole_title = None,
      right_image = None, center_image = None,
      embed_logo = False, embed_right_image = False, embed_center_image = False,
      id_suffix = []\<rparr>"

subsection \<open>Request validation as the specification words it\<close>

text \<open>The three \<open>ValueError\<close>s that \<open>badge\<close> raises for a bad combination of arguments
  (the specification's \<open>InvalidRequestError\<close>).\<close>

definition request_errors :: "error set" where
  "request_errors =
     {ValueError msg_whole_link, ValueError msg_center_image, ValueError msg_center_color}"

text \<open>The specification's three conditions, where an argument is set when it is neither
  \<open>None\<close> nor empty: (a) \<open>whole_link\<close> together with one of the segment links, (b) a
  \<open>center_image\<close> without \<open>right_image\<close> and \<open>right_text\<close>, (c) exactly one of
  \<open>center_image\<close> and \<open>center_color\<close>.\<close>

definition spec_invalid_request :: "badge_request \<Rightarrow> bool" where
  "spec_invalid_request r =
     ((truthy (whole_link r)
        \<and> (truthy (left_link r) \<or> truthy (right_link r) \<or> truthy (center_link r)))
      \<or> (truthy (center_image r) \<and> \<not> truthy (right_image r) \<and> \<not> truthy (right_text r))
      \<or> (truthy (center_image r) \<noteq> truthy (center_color r)))"

text \<open>The libraries raise exceptions of their own; this says that none of them is one of
  the three request errors.\<close>

definition libraries_raise_no_request_error :: "world \<Rightarrow> bool" where
  "libraries_raise_no_request_error w =
     (\<forall>u e. (requests_get w u = Inl e \<or> urlparse_scheme w u = Inl e \<or> read_file w u = Inl e)
        \<longrightarrow> e \<notin> request_errors)"


definition empty_right_text_request :: badge_request where
  "empty_right_text_request = example_request\<lparr>right_text := Some []\<rparr>"

definition empty_whole_link_request :: badge_request where
  "empty_whole_link_request =
     example_request\<lparr>left_link := Some ''http://example.com/left'', whole_link := Some []\<rparr>"

definition empty_center_color_request :: badge_request where
  "empty_center_color_request =
     example_request\<lparr>center_image := Some ''center.png'', center_color := Some []\<rparr>"

definition empty_logo_request :: badge_request where
  "empty_logo_request = example_request\<lparr>logo := Some [], embed_logo := True\<rparr>"

definition logo_request :: badge_request where
  "logo_request = example_request\<lparr>logo := Some ''http://example.com/logo.png''\<rparr>"


subsection \<open>The local MIME fallback as the specification words it\<close>

text \<open>A classifier has no opinion, names a MIME type, or fails. The specification's
  three stages, tried in order, the first opinion deciding: (1) the type sniffed from the
  bytes, an error naming the major type when it is not an image type; (2) \<open><svg\<close> in the
  first 500 bytes, compared case-insensitively; (3) the type guessed from the file name,
  an error when its major type is not \<open>image\<close>. With no opinion at all the type cannot
  be determined.\<close>

datatype verdict = NoOpinion | Mime string | Fail error

definition major_type :: "string \<Rightarrow> string" where
  "major_type mime = takeWhile (\<lambda>x. x \<noteq> CHR ''/'') mime"

definition sniff_stage :: "world \<Rightarrow> bytes \<Rightarrow> verdict" where
  "sniff_stage w data =
     (case filetype_guess w data of
        None \<Rightarrow> NoOpinion
      | Some mime \<Rightarrow>
          if startswith mime ''image/'' then Mime mime
          else Fail (ValueError (msg_expected_image (major_type mime))))"

definition svg_stage :: "bytes \<Rightarrow> verdict" where
  "svg_stage data =
     (if contains (lower (take 500 data)) ''<svg'' then Mime ''image/svg+xml'' else NoOpinion)"

definition extension_stage :: "world \<Rightarrow> string \<Rightarrow> verdict" where
  "extension_stage w path =
     (case mimetypes_guess_type w path of
        None \<Rightarrow> NoOpinion
      | Some mime \<Rightarrow>
          if mime = [] then NoOpinion
          else if major_type mime = ''image'' then Mime mime
          else Fail (ValueError (msg_expected_image (major_type mime))))"

fun first_opinion :: "verdict list \<Rightarrow> verdict" where
  "first_opinion [] = NoOpinion"
| "first_opinion (NoOpinion # vs) = first_opinion vs"
| "first_opinion (v # vs) = v"

definition spec_local_mime :: "world \<Rightarrow> string \<Rightarrow> bytes \<Rightarrow> error + bytes \<times> string" where
  "spec_local_mime w path data =
     (case first_opinion [sniff_stage w data, svg_stage data, extension_stage w path] of
        NoOpinion \<Rightarrow> Inl (ValueError msg_not_determined)
      | Mime mime \<Rightarrow> Inr (data, mime)
      | Fail e \<Rightarrow> Inl e)"

text \<open>The data URI of resolved bytes.\<close>

definition data_uri :: "bytes \<times> string \<Rightarrow> string" where
  "data_uri r = ''data:'' @ snd r @ '';base64,'' @ b64encode (fst r)"


subsection \<open>Normal forms of the DOM\<close>






subsection \<open>Trees of the fragment\<close>

text \<open>The trees that \<open>xml_parse\<close> produces: elements without attributes whose names are
  names of the fragment, and text nodes of legal characters. \<open>escape\<close> is what
  \<open>_write_data\<close> writes for one character.\<close>

definition valid_name :: "string \<Rightarrow> bool" where
  "valid_name tag = (tag \<noteq> [] \<and> name_start (hd tag) \<and> list_all name_char tag)"

fun simple :: "node list \<Rightarrow> bool" where
  "simple [] = True"
| "simple (Text d # xs) = (list_all xml_char d \<and> simple xs)"
| "simple (Element tag attrs cs # xs) = (valid_name tag \<and> attrs = [] \<and> simple cs \<and> simple xs)"
| "simple (x # xs) = False"


section \<open>Properties\<close>

subsection \<open>Colour resolution\<close>

lemma keys_lower: "(k, v) \<in> set NAME_TO_COLOR \<Longrightarrow> lower k = k"
  by (auto simp: NAME_TO_COLOR_def lower_def lower_char_def)

lemma distinct_keys: "distinct (map fst NAME_TO_COLOR)"
  by (simp add: NAME_TO_COLOR_def)

lemma color_get_in: "(name, v) \<in> set NAME_TO_COLOR \<Longrightarrow> color_get name = v"
  by (simp add: color_get_def map_of_is_SomeI [OF distinct_keys])

lemma color_get_notin: "name \<notin> fst ` set NAME_TO_COLOR \<Longrightarrow> color_get name = name"
  by (simp add: color_get_def map_of_eq_None_iff [THEN iffD2])

lemma color_get_case_variant: "lower name \<noteq> name \<Longrightarrow> color_get name = name"
  by (rule color_get_notin) (auto dest: keys_lower)

lemma bind_io_Inr:
  "bind_io m f = (Inr y, t) \<longleftrightarrow>
     (\<exists>x t1 t2. m = (Inr x, t1) \<and> f x = (Inr y, t2) \<and> t = t1 @ t2)"
  by (auto simp: bind_io_def split: prod.splits sum.splits)

lemma badge_fields_colors:
  assumes "badge_fields w r = (Inr f, t)"
  shows "render_fields.left_color f = color_get (left_color r)"
    and "render_fields.right_color f = color_get (right_color r)"
    and "render_fields.center_color f =
           (if truthy (center_color r) then Some (color_get (the (center_color r)))
            else center_color r)"
  using assms
  by (auto simp: badge_fields_def Let_def bind_io_Inr split: if_splits)

lemma example_fields:
  "\<exists>f. badge_fields example_world example_request = (Inr f, [])"
  by (simp add: badge_fields_def example_request_def embed_if_def bind_io_def Let_def)

text \<open>
  Claim C4. Colour resolution is a total function. Every name of the table is mapped to
  its CSS value (\<open>brightgreen\<close> to \<open>#4c1\<close>); every string that is not a key of the table
  is returned unchanged, and so is every string that holds an upper-case ASCII letter
  (the keys are lower-case, so a case variant of a known name is not a key). Whenever
  \<open>badge\<close> reaches the template, the fields \<open>left_color\<close> and \<open>right_color\<close> are the
  resolved arguments, and \<open>center_color\<close> is resolved when it is present.
\<close>

theorem color_resolution:
  "color_get ''brightgreen'' = ''#4c1''
   \<and> (\<forall>name v. (name, v) \<in> set NAME_TO_COLOR \<longrightarrow> color_get name = v)
   \<and> (\<forall>name. name \<notin> fst ` set NAME_TO_COLOR \<longrightarrow> color_get name = name)
   \<and> (\<forall>name. lower name \<noteq> name \<longrightarrow> color_get name = name)
   \<and> (\<forall>w r f t. badge_fields w r = (Inr f, t) \<longrightarrow>
          render_fields.left_color f = color_get (left_color r)
          \<and> render_fields.right_color f = color_get (right_color r)
          \<and> render_fields.center_color f =
               (if truthy (center_color r) then Some (color_get (the (center_color r)))
                else center_color r))"
proof -
  have "color_get ''brightgreen'' = ''#4c1''"
    by (rule color_get_in) (simp add: NAME_TO_COLOR_def)
  then show ?thesis
    using color_get_in color_get_notin color_get_case_variant badge_fields_colors
    by blast
qed

theorem color_resolution_witness:
  "(''red'', ''#e05d44'') \<in> set NAME_TO_COLOR \<and> color_get ''red'' = ''#e05d44''
   \<and> ''teal'' \<notin> fst ` set NAME_TO_COLOR \<and> color_get ''teal'' = ''teal''
   \<and> lower ''BrightGreen'' \<noteq> ''BrightGreen'' \<and> color_get ''BrightGreen'' = ''BrightGreen''
   \<and> (\<exists>f. badge_fields example_world example_request = (Inr f, [])
          \<and> render_fields.left_color f = color_get ''#555''
          \<and> render_fields.right_color f = color_get ''green''
          \<and> render_fields.center_color f = None)"
proof -
  have a: "(''red'', ''#e05d44'') \<in> set NAME_TO_COLOR"
    by (simp add: NAME_TO_COLOR_def)
  have b: "''teal'' \<notin> fst ` set NAME_TO_COLOR"
    by (simp add: NAME_TO_COLOR_def)
  have c: "lower ''BrightGreen'' \<noteq> ''BrightGreen''"
    by code_simp
  obtain f where f: "badge_fields example_world example_request = (Inr f, [])"
    using example_fields by blast
  have r: "left_color example_request = ''#555''" "right_color example_request = ''green''"
    "center_color example_request = None"
    by (simp_all add: example_request_def)
  from color_resolution a have a': "color_get ''red'' = ''#e05d44''" by blast
  from color_resolution b have b': "color_get ''teal'' = ''teal''" by blast
  from color_resolution c have c': "color_get ''BrightGreen'' = ''BrightGreen''" by blast
  from color_resolution f r have f':
    "render_fields.left_color f = color_get ''#555''
     \<and> render_fields.right_color f = color_get ''green''
     \<and> render_fields.center_color f = None"
    by (metis truthy.simps(1))
  show ?thesis using a b c a' b' c' f f' by blast
qed

subsection \<open>Image resolution\<close>

text \<open>
  Claim C6. For every reference that starts with \<open>data:\<close>, \<open>_embed_image\<close> returns the
  reference itself, whatever follows the prefix, and its only effect is the call: no
  HTTP request and no file read is made. So an image argument of \<open>badge\<close> that is a
  data URI is left as it is when its embed flag is set.
\<close>

theorem data_uri_returned_unchanged:
  "startswith url ''data:'' \<Longrightarrow>
     embed_image w url = (Inr url, [EmbedImage url])
     \<and> embed_if w (Some url) True = (Inr (Some url), [EmbedImage url])"
proof -
  assume h: "startswith url ''data:''"
  then have e: "embed_image w url = (Inr url, [EmbedImage url])"
    by (simp add: embed_image_def)
  from h have "url \<noteq> []" by (auto simp: startswith_def)
  with e show ?thesis by (simp add: embed_if_def bind_io_def)
qed

theorem data_uri_returned_unchanged_witness:
  "startswith ''data:text/plain;base64,###'' ''data:''
   \<and> embed_image offline_world ''data:text/plain;base64,###''
       = (Inr ''data:text/plain;base64,###'', [EmbedImage ''data:text/plain;base64,###''])
   \<and> embed_if offline_world (Some ''data:text/plain;base64,###'') True
       = (Inr (Some ''data:text/plain;base64,###''), [EmbedImage ''data:text/plain;base64,###''])"
proof -
  have h: "startswith ''data:text/plain;base64,###'' ''data:''"
    by (simp add: startswith_def)
  from data_uri_returned_unchanged [OF h] h show ?thesis by blast
qed

lemma split1_no_sep: "c \<notin> set s \<Longrightarrow> split1 c s = [s]"
proof -
  assume "c \<notin> set s"
  then have "dropWhile (\<lambda>x. x \<noteq> c) s = []" by auto
  then show ?thesis unfolding split1_def by (simp only: list.case)
qed

lemma split1_sep:
  "c \<in> set s \<Longrightarrow> split1 c s = [takeWhile (\<lambda>x. x \<noteq> c) s, tl (dropWhile (\<lambda>x. x \<noteq> c) s)]"
proof -
  assume "c \<in> set s"
  then have "dropWhile (\<lambda>x. x \<noteq> c) s \<noteq> []" by simp
  then show ?thesis by (cases "dropWhile (\<lambda>x. x \<noteq> c) s") (simp_all add: split1_def)
qed

lemma split1_two: "split1 c s = [a, b] \<Longrightarrow> c \<in> set s"
  using split1_no_sep [of c s] by auto

text \<open>
  Claim C10. When the response has a status outside 400 to 599 and a non-empty
  \<open>Content-Type\<close> header without \<open>/\<close>, \<open>_fetch_remote_image\<close> raises the \<open>ValueError\<close>
  of the failed two-element unpacking; and whenever it returns, the content type it
  returns contains \<open>/\<close>.
\<close>

theorem content_type_without_slash:
  "(requests_get w url = Inr resp
      \<and> \<not> (400 \<le> status_code resp \<and> status_code resp < 600)
      \<and> truthy (response.content_type resp)
      \<and> CHR ''/'' \<notin> set (the (response.content_type resp))
     \<longrightarrow> fetch_remote_image w url = (Inl (ValueError msg_unpack), [HttpGet url]))
   \<and> (\<forall>body mime t. fetch_remote_image w url = (Inr (body, mime), t)
         \<longrightarrow> CHR ''/'' \<in> set mime)"
proof (intro conjI impI allI)
  assume "requests_get w url = Inr resp
      \<and> \<not> (400 \<le> status_code resp \<and> status_code resp < 600)
      \<and> truthy (response.content_type resp)
      \<and> CHR ''/'' \<notin> set (the (response.content_type resp))"
  then show "fetch_remote_image w url = (Inl (ValueError msg_unpack), [HttpGet url])"
    by (simp add: fetch_remote_image_def split1_no_sep)
next
  fix body mime t
  assume "fetch_remote_image w url = (Inr (body, mime), t)"
  then show "CHR ''/'' \<in> set mime"
    by (auto simp: fetch_remote_image_def split: sum.splits if_splits list.splits
             dest: split1_two)
qed


theorem content_type_without_slash_witness:
  "requests_get example_world ''http://example.com/bare''
     = Inr \<lparr>status_code = 200, content_type = Some ''image'', content = ''PNG''\<rparr>
   \<and> \<not> (400 \<le> (200::nat) \<and> (200::nat) < 600) \<and> truthy (Some ''image'')
   \<and> CHR ''/'' \<notin> set ''image''
   \<and> fetch_remote_image example_world ''http://example.com/bare''
       = (Inl (ValueError msg_unpack), [HttpGet ''http://example.com/bare''])
   \<and> fetch_remote_image example_world ''http://example.com/logo.png''
       = (Inr (''PNG'', ''image/png''), [HttpGet ''http://example.com/logo.png''])
   \<and> CHR ''/'' \<in> set ''image/png''"
proof -
  let ?resp = "\<lparr>status_code = 200, content_type = Some ''image'', content = ''PNG''\<rparr>"
  have g: "requests_get example_world ''http://example.com/bare'' = Inr ?resp"
    by (simp add: example_world_def example_get_def)
  have h: "requests_get example_world ''http://example.com/bare'' = Inr ?resp
      \<and> \<not> (400 \<le> status_code ?resp \<and> status_code ?resp < 600)
      \<and> truthy (response.content_type ?resp)
      \<and> CHR ''/'' \<notin> set (the (response.content_type ?resp))"
    using g by simp
  have ok: "fetch_remote_image example_world ''http://example.com/logo.png''
       = (Inr (''PNG'', ''image/png''), [HttpGet ''http://example.com/logo.png''])"
    by (simp add: fetch_remote_image_def example_world_def example_get_def split1_def
                  lower_def lower_char_def)
  from content_type_without_slash [of example_world "''http://example.com/bare''" ?resp] h
  have 1: "fetch_remote_image example_world ''http://example.com/bare''
       = (Inl (ValueError msg_unpack), [HttpGet ''http://example.com/bare''])"
    by blast
  from content_type_without_slash [of example_world "''http://example.com/logo.png''"] ok
  have 2: "CHR ''/'' \<in> set ''image/png''"
    by blast
  show ?thesis using g 1 2 ok by simp
qed

subsection \<open>Request validation, widths and effects of \<open>badge\<close>\<close>

lemma badge_fields_invalid:
  "spec_invalid_request r \<Longrightarrow> \<exists>e\<in>request_errors. badge_fields w r = (Inl e, [])"
  by (auto simp: spec_invalid_request_def badge_fields_def request_errors_def Let_def)

lemma bind_io_Inl_Nil:
  "m = (Inl e, t) \<Longrightarrow> bind_io m f = (Inl e, t)"
  by (simp add: bind_io_def)

lemma badge_invalid:
  "spec_invalid_request r \<Longrightarrow> \<exists>e\<in>request_errors. badge w r = (Inl e, [])"
  using badge_fields_invalid [of r w] by (auto simp: badge_def bind_io_def)

lemma not_request_error [simp]:
  "ValueError (msg_expected_image m) \<notin> request_errors"
  "ValueError (msg_unsupported_scheme m) \<notin> request_errors"
  "ValueError msg_no_content_type \<notin> request_errors"
  "ValueError msg_unpack \<notin> request_errors"
  "ValueError msg_not_determined \<notin> request_errors"
  "ValueError msg_cdata \<notin> request_errors"
  "ValueError msg_comment \<notin> request_errors"
  "HTTPError n \<notin> request_errors"
  "ExpatError \<notin> request_errors"
  "AttributeError \<notin> request_errors"
  by (simp_all add: request_errors_def msg_expected_image_def msg_unsupported_scheme_def
        msg_no_content_type_def msg_unpack_def msg_cdata_def msg_comment_def
        msg_not_determined_def
        msg_whole_link_def msg_center_image_def msg_center_color_def)

lemma fetch_remote_no_request_error:
  "libraries_raise_no_request_error w \<Longrightarrow> fst (fetch_remote_image w u) = Inl e
     \<Longrightarrow> e \<notin> request_errors"
  by (auto simp: fetch_remote_image_def libraries_raise_no_request_error_def
           split: sum.splits if_splits list.splits)

lemma fetch_local_no_request_error:
  "libraries_raise_no_request_error w \<Longrightarrow> fst (fetch_local_image_and_mime w u) = Inl e
     \<Longrightarrow> e \<notin> request_errors"
  by (auto simp: fetch_local_image_and_mime_def libraries_raise_no_request_error_def Let_def
           split: sum.splits if_splits option.splits)

lemma fst_bind_io_Inl:
  "fst (bind_io m f) = Inl e \<longleftrightarrow>
     fst m = Inl e \<or> (\<exists>x. fst m = Inr x \<and> fst (f x) = Inl e)"
  by (cases m) (auto simp: bind_io_def split: sum.splits prod.splits)

lemma urlparse_no_request_error:
  "libraries_raise_no_request_error w \<Longrightarrow> urlparse_scheme w u = Inl e
     \<Longrightarrow> e \<notin> request_errors"
  by (auto simp: libraries_raise_no_request_error_def)

lemma embed_image_no_request_error:
  "libraries_raise_no_request_error w \<Longrightarrow> fst (embed_image w u) = Inl e
     \<Longrightarrow> e \<notin> request_errors"
  by (auto simp: embed_image_def fst_bind_io_Inl
           split: sum.splits if_splits prod.splits
           dest: fetch_remote_no_request_error fetch_local_no_request_error
                 urlparse_no_request_error)

lemma embed_if_no_request_error:
  "libraries_raise_no_request_error w \<Longrightarrow> fst (embed_if w x flag) = Inl e
     \<Longrightarrow> e \<notin> request_errors"
  by (auto simp: embed_if_def fst_bind_io_Inl split: if_splits
           dest: embed_image_no_request_error)

lemma toxml_no_request_error:
  "toxml n = Inl e \<Longrightarrow> e \<notin> request_errors"
  "toxml_list ns = Inl e \<Longrightarrow> e \<notin> request_errors"
  by (induction n and ns arbitrary: e and e rule: toxml_toxml_list.induct)
     (auto split: if_splits sum.splits)

lemma normalize_svg_no_request_error:
  "normalize_svg p s = Inl e \<Longrightarrow> e \<notin> request_errors"
  by (auto simp: normalize_svg_def split: option.splits dest: toxml_no_request_error)

lemma badge_fields_valid:
  assumes "libraries_raise_no_request_error w" "\<not> spec_invalid_request r"
    and "fst (badge_fields w r) = Inl e"
  shows "e \<notin> request_errors"
proof -
  from assms(2) have
    "badge_fields w r =
       bind_io (embed_if w (logo r) (embed_logo r)) (\<lambda>l.
       bind_io (embed_if w (right_image r) (embed_right_image r)) (\<lambda>ri.
       bind_io (embed_if w (center_image r) (embed_center_image r)) (\<lambda>ci.
         (Inr \<lparr>render_fields.left_text = left_text r,
                render_fields.right_text = right_text r,
                left_text_width =
                  (case measurer r of None \<Rightarrow> default_measurer w | Some m \<Rightarrow> m) (left_text r) / 10,
                right_text_width =
                  (if truthy (right_text r)
                   then Some ((case measurer r of None \<Rightarrow> default_measurer w | Some m \<Rightarrow> m)
                               (the (right_text r)) / 10)
                   else None),
                render_fields.left_link = left_link r,
                render_fields.right_link = right_link r,
                render_fields.whole_link = whole_link r,
                render_fields.center_link = center_link r,
                render_fields.logo = l,
                render_fields.left_color = color_get (left_color r),
                render_fields.right_color = color_get (right_color r),
                render_fields.center_color =
                  (if truthy (center_color r) then Some (color_get (the (center_color r)))
                   else center_color r),
                render_fields.left_title = left_title r,
                render_fields.right_title = right_title r,
                render_fields.center_title = center_title r,
                render_fields.whole_title = whole_title r,
                render_fields.right_image = ri,
                render_fields.center_image = ci,
                render_fields.id_suffix = id_suffix r\<rparr>, []))))"
    (is "_ = ?rhs")
    by (auto simp: badge_fields_def spec_invalid_request_def Let_def)
  with assms(1,3) show ?thesis
    by (auto simp: fst_bind_io_Inl dest: embed_if_no_request_error)
qed

lemma badge_valid:
  assumes "libraries_raise_no_request_error w" "\<not> spec_invalid_request r"
  shows "fst (badge w r) \<notin> Inl ` request_errors"
proof
  assume "fst (badge w r) \<in> Inl ` request_errors"
  then obtain e where e: "e \<in> request_errors" "fst (badge w r) = Inl e" by auto
  from e(2) have "fst (badge_fields w r) = Inl e
      \<or> (\<exists>f. normalize_svg (parseString w) (template_render w f) = Inl e)"
    by (auto simp: badge_def fst_bind_io_Inl)
  with assms e(1) show False
    using badge_fields_valid normalize_svg_no_request_error by blast
qed

lemma example_get_error: "example_get u = Inl e \<Longrightarrow> e = RequestException ''connection failed''"
  by (simp add: example_get_def split: if_splits)

lemma example_read_error: "example_read u = Inl e \<Longrightarrow> e = OSError ''No such file or directory''"
  by (simp add: example_read_def split: if_splits)

lemma example_scheme_error: "example_scheme u \<noteq> Inl e"
  by (simp add: example_scheme_def Let_def)

lemma example_world_libraries: "libraries_raise_no_request_error example_world"
  unfolding libraries_raise_no_request_error_def
proof (intro allI impI)
  fix u e
  assume "requests_get example_world u = Inl e \<or> urlparse_scheme example_world u = Inl e
          \<or> read_file example_world u = Inl e"
  then have "e = RequestException ''connection failed'' \<or> e = OSError ''No such file or directory''"
    using example_get_error [of u e] example_read_error [of u e] example_scheme_error [of u e]
    by (auto simp: example_world_def)
  then show "e \<notin> request_errors"
    by (auto simp: request_errors_def)
qed

lemma badge_fields_widths:
  assumes "badge_fields w r = (Inr f, t)"
  shows "left_text_width f
           = (case measurer r of None \<Rightarrow> default_measurer w | Some m \<Rightarrow> m) (left_text r) / 10"
    and "right_text_width f
           = (if truthy (right_text r)
              then Some ((case measurer r of None \<Rightarrow> default_measurer w | Some m \<Rightarrow> m)
                          (the (right_text r)) / 10)
              else None)"
  using assms
  by (auto simp: badge_fields_def Let_def bind_io_Inr split: if_splits)

lemma empty_right_text_fields:
  "\<exists>f. badge_fields example_world empty_right_text_request = (Inr f, [])"
  by (simp add: badge_fields_def empty_right_text_request_def example_request_def
        embed_if_def bind_io_def Let_def)

lemma snd_bind_io:
  "snd (bind_io m f) = snd m @ (case fst m of Inl e \<Rightarrow> [] | Inr x \<Rightarrow> snd (f x))"
  by (cases m) (auto simp: bind_io_def split: sum.splits prod.splits)

lemma fetch_remote_trace: "snd (fetch_remote_image w u) = [HttpGet u]"
  by (simp add: fetch_remote_image_def split: sum.splits)

lemma fetch_local_trace: "snd (fetch_local_image_and_mime w u) = [FileRead u]"
  by (simp add: fetch_local_image_and_mime_def split: sum.splits)

lemma embed_image_trace:
  "set (snd (embed_image w u)) \<subseteq> {EmbedImage u, HttpGet u, FileRead u}"
  by (auto simp: embed_image_def snd_bind_io fetch_remote_trace fetch_local_trace
           split: sum.splits if_splits prod.splits)

lemma embed_if_trace:
  "ev \<in> set (snd (embed_if w x flag)) \<Longrightarrow>
     truthy x \<and> flag \<and> ev \<in> {EmbedImage (the x), HttpGet (the x), FileRead (the x)}"
  using embed_image_trace [of w "the x"]
  by (auto simp: embed_if_def snd_bind_io split: if_splits sum.splits)

lemma embed_if_no_empty: "EmbedImage [] \<notin> set (snd (embed_if w x flag))"
proof
  assume "EmbedImage [] \<in> set (snd (embed_if w x flag))"
  from embed_if_trace [OF this] show False by (cases x) auto
qed

lemma badge_fields_trace:
  "ev \<in> set (snd (badge_fields w r)) \<Longrightarrow>
     ev \<in> set (snd (embed_if w (logo r) (embed_logo r)))
     \<or> ev \<in> set (snd (embed_if w (right_image r) (embed_right_image r)))
     \<or> ev \<in> set (snd (embed_if w (center_image r) (embed_center_image r)))"
  by (auto simp: badge_fields_def Let_def snd_bind_io split: if_splits sum.splits)

lemma badge_trace: "snd (badge w r) = snd (badge_fields w r)"
  by (simp add: badge_def snd_bind_io split: sum.splits)

lemma badge_no_empty_embed: "EmbedImage [] \<notin> set (snd (badge w r))"
  using badge_fields_trace [of "EmbedImage []" w r] embed_if_no_empty
  by (auto simp: badge_trace)

lemma embed_if_unset: "\<not> truthy x \<Longrightarrow> embed_if w x flag = (Inr x, [])"
  by (simp add: embed_if_def)

lemma embed_if_off: "embed_if w x False = (Inr x, [])"
  by (simp add: embed_if_def)

lemma bind_io_return: "bind_io (Inr x, []) f = f x"
  by (simp add: bind_io_def split: prod.splits)

lemma badge_fields_no_embedding:
  assumes "\<not> embed_logo r" "\<not> embed_right_image r" "\<not> embed_center_image r"
    and "default_measurer w = default_measurer w'"
  shows "badge_fields w r = badge_fields w' r" and "snd (badge_fields w r) = []"
  using assms
  by (simp_all add: badge_fields_def Let_def embed_if_off bind_io_return
        cong: option.case_cong)

lemma badge_fields_images:
  assumes "badge_fields w r = (Inr f, t)"
  shows "\<not> truthy (logo r) \<Longrightarrow> render_fields.logo f = logo r"
    and "\<not> truthy (right_image r) \<Longrightarrow> render_fields.right_image f = right_image r"
    and "\<not> truthy (center_image r) \<Longrightarrow> render_fields.center_image f = center_image r"
  using assms
  by (auto simp: badge_fields_def Let_def bind_io_Inr embed_if_def split: if_splits)

lemma spec_invalid_empty_whole_link:
  "whole_link r = Some [] \<Longrightarrow> \<not> truthy (center_image r) \<Longrightarrow> \<not> truthy (center_color r)
     \<Longrightarrow> \<not> spec_invalid_request r"
  by (simp add: spec_invalid_request_def)

lemma spec_invalid_empty_center_color:
  "truthy (center_image r) \<Longrightarrow> center_color r = Some [] \<Longrightarrow> spec_invalid_request r"
  by (simp add: spec_invalid_request_def)

lemma embed_image_trace_nonempty: "snd (embed_image w u) \<noteq> []"
  by (simp add: embed_image_def snd_bind_io split: sum.splits)

lemma embed_if_not_silent_error: "embed_if w x flag \<noteq> (Inl e, [])"
proof
  assume a: "embed_if w x flag = (Inl e, [])"
  then have "truthy x \<and> flag" by (auto simp: embed_if_def split: if_splits)
  with a have "snd (bind_io (embed_image w (the x)) (\<lambda>u. (Inr (Some u), []))) = []"
    by (simp add: embed_if_def)
  then show False
    using embed_image_trace_nonempty [of w "the x"] by (simp add: snd_bind_io)
qed

lemma bind_io_Inl_Nil_iff:
  "bind_io m f = (Inl e, []) \<longleftrightarrow>
     m = (Inl e, []) \<or> (\<exists>x. m = (Inr x, []) \<and> f x = (Inl e, []))"
  by (cases m) (auto simp: bind_io_def split: sum.splits prod.splits)

lemma badge_fields_silent_error:
  assumes "badge_fields w r = (Inl e, [])"
  shows "spec_invalid_request r \<and> e \<in> request_errors
         \<and> (e = ValueError msg_whole_link \<longrightarrow> truthy (whole_link r))"
proof (cases "spec_invalid_request r")
  case True
  with assms show ?thesis
    by (auto simp: badge_fields_def Let_def spec_invalid_request_def request_errors_def
          msg_whole_link_def msg_center_image_def msg_center_color_def
          split: if_splits)
next
  case False
  then have "badge_fields w r =
       bind_io (embed_if w (logo r) (embed_logo r)) (\<lambda>l.
       bind_io (embed_if w (right_image r) (embed_right_image r)) (\<lambda>ri.
       bind_io (embed_if w (center_image r) (embed_center_image r)) (\<lambda>ci.
         (Inr \<lparr>render_fields.left_text = left_text r,
                render_fields.right_text = right_text r,
                left_text_width =
                  (case measurer r of None \<Rightarrow> default_measurer w | Some m \<Rightarrow> m) (left_text r) / 10,
                right_text_width =
                  (if truthy (right_text r)
                   then Some ((case measurer r of None \<Rightarrow> default_measurer w | Some m \<Rightarrow> m)
                               (the (right_text r)) / 10)
                   else None),
                render_fields.left_link = left_link r,
                render_fields.right_link = right_link r,
                render_fields.whole_link = whole_link r,
                render_fields.center_link = center_link r,
                render_fields.logo = l,
                render_fields.left_color = color_get (left_color r),
                render_fields.right_color = color_get (right_color r),
                render_fields.center_color =
                  (if truthy (center_color r) then Some (color_get (the (center_color r)))
                   else center_color r),
                render_fields.left_title = left_title r,
                render_fields.right_title = right_title r,
                render_fields.center_title = center_title r,
                render_fields.whole_title = whole_title r,
                render_fields.right_image = ri,
                render_fields.center_image = ci,
                render_fields.id_suffix = id_suffix r\<rparr>, []))))"
    by (auto simp: badge_fields_def spec_invalid_request_def Let_def)
  with assms show ?thesis
    by (simp add: bind_io_Inl_Nil_iff embed_if_not_silent_error)
qed


lemma badge_fields_request_error_silent:
  assumes "libraries_raise_no_request_error w" "fst (badge_fields w r) = Inl e"
    "e \<in> request_errors"
  shows "badge_fields w r = (Inl e, [])"
proof (cases "spec_invalid_request r")
  case True
  then obtain e' where "badge_fields w r = (Inl e', [])"
    using badge_fields_invalid by blast
  with assms(2) show ?thesis by simp
next
  case False
  with assms show ?thesis using badge_fields_valid by blast
qed

lemma badge_empty_whole_link:
  assumes "whole_link r = Some []" "libraries_raise_no_request_error w"
  shows "fst (badge w r) \<noteq> Inl (ValueError msg_whole_link)"
proof
  assume a: "fst (badge w r) = Inl (ValueError msg_whole_link)"
  have m: "ValueError msg_whole_link \<in> request_errors" by (simp add: request_errors_def)
  from a have "fst (badge_fields w r) = Inl (ValueError msg_whole_link)
      \<or> (\<exists>f. normalize_svg (parseString w) (template_render w f) = Inl (ValueError msg_whole_link))"
    by (auto simp: badge_def fst_bind_io_Inl)
  with m have "fst (badge_fields w r) = Inl (ValueError msg_whole_link)"
    using normalize_svg_no_request_error by blast
  with assms(2) m have "badge_fields w r = (Inl (ValueError msg_whole_link), [])"
    using badge_fields_request_error_silent by blast
  then have "truthy (whole_link r)" using badge_fields_silent_error by blast
  with assms(1) show False by simp
qed

lemma empty_logo_fields:
  "\<exists>f. badge_fields example_world empty_logo_request = (Inr f, [])"
  by (simp add: badge_fields_def empty_logo_request_def example_request_def
        embed_if_def bind_io_def Let_def)



text \<open>
  Claim C5. Whenever \<open>badge\<close> reaches the template, the field \<open>left_text_width\<close> is the
  measurer's width of \<open>left_text\<close> divided by 10; the field \<open>right_text_width\<close> is the
  measurer's width of \<open>right_text\<close> divided by 10 when \<open>right_text\<close> is non-empty; and
  when \<open>right_text\<close> is \<open>None\<close> or empty the field is \<open>None\<close>, which is not a width of
  0. (The quotient is the exact one; the rounding of Python's floats is not modelled.)
\<close>

theorem text_widths:
  "badge_fields w r = (Inr f, t) \<longrightarrow>
     left_text_width f
       = (case measurer r of None \<Rightarrow> default_measurer w | Some m \<Rightarrow> m) (left_text r) / 10
     \<and> (truthy (right_text r) \<longrightarrow>
          right_text_width f
            = Some ((case measurer r of None \<Rightarrow> default_measurer w | Some m \<Rightarrow> m)
                     (the (right_text r)) / 10))
     \<and> (right_text r = None \<or> right_text r = Some [] \<longrightarrow>
          right_text_width f = None \<and> right_text_width f \<noteq> Some 0)"
proof (intro impI conjI)
  assume h: "badge_fields w r = (Inr f, t)"
  show "left_text_width f
       = (case measurer r of None \<Rightarrow> default_measurer w | Some m \<Rightarrow> m) (left_text r) / 10"
    by (rule badge_fields_widths(1) [OF h])
  { assume "truthy (right_text r)"
    then show "right_text_width f
            = Some ((case measurer r of None \<Rightarrow> default_measurer w | Some m \<Rightarrow> m)
                     (the (right_text r)) / 10)"
      using badge_fields_widths(2) [OF h] by simp }
  { assume "right_text r = None \<or> right_text r = Some []"
    then have "\<not> truthy (right_text r)" by auto
    then show "right_text_width f = None" "right_text_width f \<noteq> Some 0"
      using badge_fields_widths(2) [OF h] by simp_all }
qed

theorem text_widths_witness:
  "(\<exists>f. badge_fields example_world example_request = (Inr f, [])
        \<and> left_text_width f = 32.5
        \<and> truthy (right_text example_request)
        \<and> right_text_width f = Some 45.5)
   \<and> (\<exists>f. badge_fields example_world empty_right_text_request = (Inr f, [])
        \<and> left_text_width f = 32.5
        \<and> right_text empty_right_text_request = Some []
        \<and> default_measurer example_world [] / 10 = 0
        \<and> right_text_width f = None \<and> right_text_width f \<noteq> Some 0)"
proof -
  obtain f where f: "badge_fields example_world example_request = (Inr f, [])"
    using example_fields by blast
  obtain g where g: "badge_fields example_world empty_right_text_request = (Inr g, [])"
    using empty_right_text_fields by blast
  have r: "truthy (right_text example_request)"
    "right_text empty_right_text_request = Some []"
    by (simp_all add: example_request_def empty_right_text_request_def)
  have m: "(case measurer example_request of None \<Rightarrow> default_measurer example_world
            | Some m \<Rightarrow> m) (left_text example_request) / 10 = 32.5"
    "(case measurer example_request of None \<Rightarrow> default_measurer example_world
            | Some m \<Rightarrow> m) (the (right_text example_request)) / 10 = 45.5"
    "(case measurer empty_right_text_request of None \<Rightarrow> default_measurer example_world
            | Some m \<Rightarrow> m) (left_text empty_right_text_request) / 10 = 32.5"
    "default_measurer example_world [] / 10 = 0"
    by (simp_all add: example_request_def empty_right_text_request_def example_world_def)
  from text_widths [of example_world example_request f "[]"] f r(1) m(1,2)
  have 1: "left_text_width f = 32.5 \<and> right_text_width f = Some 45.5"
    by simp
  from text_widths [of example_world empty_right_text_request g "[]"] g r(2) m(3)
  have 2: "left_text_width g = 32.5 \<and> right_text_width g = None
            \<and> right_text_width g \<noteq> Some 0"
    by simp
  from f g r m(4) 1 2 show ?thesis by blast
qed

text \<open>
  Claim C8. With the three embed flags \<open>False\<close>, the result of \<open>badge\<close> is a function of
  the request, the measurer, the template and the XML reader alone: two worlds that
  agree on these three and differ in everything else (network, file system, URL
  parser, type sniffers) give the same result for the same request, and the call has no
  effect (the trace is empty).
\<close>

theorem badge_deterministic_without_embedding:
  "\<not> embed_logo r \<and> \<not> embed_right_image r \<and> \<not> embed_center_image r
   \<and> default_measurer w = default_measurer w'
   \<and> template_render w = template_render w'
   \<and> parseString w = parseString w'
   \<longrightarrow> badge w r = badge w' r \<and> snd (badge w r) = []"
proof
  assume h: "\<not> embed_logo r \<and> \<not> embed_right_image r \<and> \<not> embed_center_image r
   \<and> default_measurer w = default_measurer w'
   \<and> template_render w = template_render w'
   \<and> parseString w = parseString w'"
  then have "badge_fields w r = badge_fields w' r" "snd (badge_fields w r) = []"
    using badge_fields_no_embedding [of r w w'] by blast+
  with h show "badge w r = badge w' r \<and> snd (badge w r) = []"
    by (simp add: badge_def snd_bind_io split: sum.splits)
qed

theorem badge_deterministic_without_embedding_witness:
  "\<not> embed_logo logo_request \<and> \<not> embed_right_image logo_request
   \<and> \<not> embed_center_image logo_request
   \<and> default_measurer example_world = default_measurer offline_world
   \<and> template_render example_world = template_render offline_world
   \<and> parseString example_world = parseString offline_world
   \<and> requests_get example_world \<noteq> requests_get offline_world
   \<and> badge example_world logo_request = badge offline_world logo_request
   \<and> snd (badge example_world logo_request) = []"
proof -
  have h: "\<not> embed_logo logo_request \<and> \<not> embed_right_image logo_request
   \<and> \<not> embed_center_image logo_request
   \<and> default_measurer example_world = default_measurer offline_world
   \<and> template_render example_world = template_render offline_world
   \<and> parseString example_world = parseString offline_world"
    by (simp add: logo_request_def example_request_def example_world_def offline_world_def)
  have "requests_get example_world ''http://example.com/logo.png''
          \<noteq> requests_get offline_world ''http://example.com/logo.png''"
    by (simp add: example_world_def offline_world_def example_get_def)
  then have d: "requests_get example_world \<noteq> requests_get offline_world"
    by metis
  from badge_deterministic_without_embedding [of logo_request example_world offline_world] h
  have "badge example_world logo_request = badge offline_world logo_request
        \<and> snd (badge example_world logo_request) = []"
    by blast
  with h d show ?thesis by blast
qed

text \<open>
  Claim C9. An empty string counts as absent wherever \<open>badge\<close> tests presence. With
  \<open>whole_link = ""\<close> the first check never fires, whatever the segment links are, and a
  request that has no centre image and no centre colour raises no request error. With
  \<open>center_image\<close> set and \<open>center_color = ""\<close> the request is rejected with a request
  error before any effect. \<open>_embed_image\<close> is never called with the empty string, and an
  empty \<open>logo\<close>, \<open>right_image\<close> or \<open>center_image\<close> reaches the template unchanged,
  whatever the embed flags are.
\<close>

theorem empty_strings_count_as_absent:
  "(whole_link r = Some [] \<and> libraries_raise_no_request_error w
      \<longrightarrow> fst (badge w r) \<noteq> Inl (ValueError msg_whole_link))
   \<and> (whole_link r = Some [] \<and> \<not> truthy (center_image r) \<and> \<not> truthy (center_color r)
        \<and> libraries_raise_no_request_error w
      \<longrightarrow> fst (badge w r) \<notin> Inl ` request_errors)
   \<and> (truthy (center_image r) \<and> center_color r = Some []
      \<longrightarrow> (\<exists>e\<in>request_errors. badge w r = (Inl e, [])))
   \<and> EmbedImage [] \<notin> set (snd (badge w r))
   \<and> (\<forall>f t. badge_fields w r = (Inr f, t) \<longrightarrow>
         (logo r = Some [] \<longrightarrow> render_fields.logo f = Some [])
         \<and> (right_image r = Some [] \<longrightarrow> render_fields.right_image f = Some [])
         \<and> (center_image r = Some [] \<longrightarrow> render_fields.center_image f = Some []))"
proof (intro conjI)
  show "whole_link r = Some [] \<and> libraries_raise_no_request_error w
      \<longrightarrow> fst (badge w r) \<noteq> Inl (ValueError msg_whole_link)"
    using badge_empty_whole_link by blast
  show "whole_link r = Some [] \<and> \<not> truthy (center_image r) \<and> \<not> truthy (center_color r)
        \<and> libraries_raise_no_request_error w
      \<longrightarrow> fst (badge w r) \<notin> Inl ` request_errors"
    using badge_valid spec_invalid_empty_whole_link by blast
  show "truthy (center_image r) \<and> center_color r = Some []
      \<longrightarrow> (\<exists>e\<in>request_errors. badge w r = (Inl e, []))"
    using badge_invalid spec_invalid_empty_center_color by blast
  show "EmbedImage [] \<notin> set (snd (badge w r))"
    by (rule badge_no_empty_embed)
  show "\<forall>f t. badge_fields w r = (Inr f, t) \<longrightarrow>
         (logo r = Some [] \<longrightarrow> render_fields.logo f = Some [])
         \<and> (right_image r = Some [] \<longrightarrow> render_fields.right_image f = Some [])
         \<and> (center_image r = Some [] \<longrightarrow> render_fields.center_image f = Some [])"
    using badge_fields_images [of w r] by auto
qed

theorem empty_strings_count_as_absent_witness:
  "whole_link empty_whole_link_request = Some []
   \<and> truthy (left_link empty_whole_link_request)
   \<and> \<not> truthy (center_image empty_whole_link_request)
   \<and> \<not> truthy (center_color empty_whole_link_request)
   \<and> libraries_raise_no_request_error example_world
   \<and> fst (badge example_world empty_whole_link_request) \<noteq> Inl (ValueError msg_whole_link)
   \<and> fst (badge example_world empty_whole_link_request) \<notin> Inl ` request_errors
   \<and> truthy (center_image empty_center_color_request)
   \<and> center_color empty_center_color_request = Some []
   \<and> (\<exists>e\<in>request_errors. badge example_world empty_center_color_request = (Inl e, []))
   \<and> logo empty_logo_request = Some [] \<and> embed_logo empty_logo_request
   \<and> (\<exists>f. badge_fields example_world empty_logo_request = (Inr f, [])
          \<and> render_fields.logo f = Some [])"
proof -
  have a: "whole_link empty_whole_link_request = Some []"
    "truthy (left_link empty_whole_link_request)"
    "\<not> truthy (center_image empty_whole_link_request)"
    "\<not> truthy (center_color empty_whole_link_request)"
    by (simp_all add: empty_whole_link_request_def example_request_def)
  have b: "truthy (center_image empty_center_color_request)"
    "center_color empty_center_color_request = Some []"
    by (simp_all add: empty_center_color_request_def example_request_def)
  have c: "logo empty_logo_request = Some []" "embed_logo empty_logo_request"
    by (simp_all add: empty_logo_request_def example_request_def)
  note l = example_world_libraries
  obtain f where f: "badge_fields example_world empty_logo_request = (Inr f, [])"
    using empty_logo_fields by blast
  from empty_strings_count_as_absent [of empty_whole_link_request example_world] a l
  have 1: "fst (badge example_world empty_whole_link_request) \<noteq> Inl (ValueError msg_whole_link)"
    "fst (badge example_world empty_whole_link_request) \<notin> Inl ` request_errors"
    by blast+
  from empty_strings_count_as_absent [of empty_center_color_request example_world] b
  have 2: "\<exists>e\<in>request_errors. badge example_world empty_center_color_request = (Inl e, [])"
    by blast
  from empty_strings_count_as_absent [of empty_logo_request example_world] c(1) f
  have 3: "render_fields.logo f = Some []"
    by blast
  from a b c l f 1 2 3 show ?thesis by blast
qed

subsection \<open>Local and remote image resolution\<close>

lemma hd_split1: "hd (split1 c s) = takeWhile (\<lambda>x. x \<noteq> c) s"
proof (cases "c \<in> set s")
  case True
  then show ?thesis by (simp add: split1_sep)
next
  case False
  then have "takeWhile (\<lambda>x. x \<noteq> c) s = s" by auto
  with split1_no_sep [OF False] show ?thesis by (simp only: list.sel)
qed

lemma local_refines_spec:
  "read_file w path = Inr data \<Longrightarrow>
     fetch_local_image_and_mime w path = (spec_local_mime w path data, [FileRead path])"
  by (auto simp: fetch_local_image_and_mime_def spec_local_mime_def sniff_stage_def
        svg_stage_def extension_stage_def major_type_def hd_split1 Let_def
        split: option.splits)

lemma embed_image_local:
  assumes "\<not> startswith path ''data:''" "urlparse_scheme w path = Inr []"
  shows "embed_image w path =
           (case fetch_local_image_and_mime w path of
              (Inl e, t) \<Rightarrow> (Inl e, EmbedImage path # t)
            | (Inr r, t) \<Rightarrow> (Inr (data_uri r), EmbedImage path # t))"
  using assms
  by (auto simp: embed_image_def bind_io_def data_uri_def split: prod.splits sum.splits)

lemma embed_image_remote:
  assumes "\<not> startswith url ''data:''" "urlparse_scheme w url = Inr s"
    "s = ''http'' \<or> s = ''https''"
  shows "embed_image w url =
           (case fetch_remote_image w url of
              (Inl e, t) \<Rightarrow> (Inl e, EmbedImage url # t)
            | (Inr r, t) \<Rightarrow> (Inr (data_uri r), EmbedImage url # t))"
  using assms
  by (auto simp: embed_image_def bind_io_def data_uri_def split: prod.splits sum.splits)

lemma spec_local_mime_examples:
  "spec_local_mime example_world ''pic.txt'' (CHR 0x89 # ''PNG data'')
     = Inr (CHR 0x89 # ''PNG data'', ''image/png'')"
  "spec_local_mime example_world ''doc.png'' ''%PDF-1.4 <svg''
     = Inl (ValueError (msg_expected_image ''application''))"
  "spec_local_mime example_world ''drawing.txt'' ''<SVG width=1></SVG>''
     = Inr (''<SVG width=1></SVG>'', ''image/svg+xml'')"
  "spec_local_mime example_world ''photo.png'' ''raw pixels'' = Inr (''raw pixels'', ''image/png'')"
  "spec_local_mime example_world ''notes.txt'' ''plain text''
     = Inl (ValueError (msg_expected_image ''text''))"
  "spec_local_mime example_world ''blob'' ''raw bytes'' = Inl (ValueError msg_not_determined)"
  by code_simp+

lemma example_files:
  "read_file example_world ''pic.txt'' = Inr (CHR 0x89 # ''PNG data'')"
  "read_file example_world ''doc.png'' = Inr ''%PDF-1.4 <svg''"
  "read_file example_world ''drawing.txt'' = Inr ''<SVG width=1></SVG>''"
  "read_file example_world ''photo.png'' = Inr ''raw pixels''"
  "read_file example_world ''notes.txt'' = Inr ''plain text''"
  "read_file example_world ''blob'' = Inr ''raw bytes''"
  by (simp_all add: example_world_def example_read_def)

lemma fetch_remote_cases:
  assumes "requests_get w url = Inr resp"
  shows "400 \<le> status_code resp \<and> status_code resp < 600 \<Longrightarrow>
           fetch_remote_image w url = (Inl (HTTPError (status_code resp)), [HttpGet url])"
    and "\<not> (400 \<le> status_code resp \<and> status_code resp < 600) \<Longrightarrow>
         \<not> truthy (response.content_type resp) \<Longrightarrow>
           fetch_remote_image w url = (Inl (ValueError msg_no_content_type), [HttpGet url])"
    and "\<not> (400 \<le> status_code resp \<and> status_code resp < 600) \<Longrightarrow>
         truthy (response.content_type resp) \<Longrightarrow>
         CHR ''/'' \<in> set (the (response.content_type resp)) \<Longrightarrow>
         lower (major_type (the (response.content_type resp))) \<noteq> ''image'' \<Longrightarrow>
           fetch_remote_image w url
             = (Inl (ValueError (msg_expected_image
                       (major_type (the (response.content_type resp))))), [HttpGet url])"
    and "\<not> (400 \<le> status_code resp \<and> status_code resp < 600) \<Longrightarrow>
         truthy (response.content_type resp) \<Longrightarrow>
         CHR ''/'' \<in> set (the (response.content_type resp)) \<Longrightarrow>
         lower (major_type (the (response.content_type resp))) = ''image'' \<Longrightarrow>
           fetch_remote_image w url
             = (Inr (content resp, the (response.content_type resp)), [HttpGet url])"
  using assms
  by (simp_all add: fetch_remote_image_def split1_sep major_type_def)

lemma example_responses:
  "requests_get example_world ''http://example.com/missing''
     = Inr \<lparr>status_code = 404, content_type = Some ''image/png'', content = ''gone''\<rparr>"
  "requests_get example_world ''http://example.com/untyped''
     = Inr \<lparr>status_code = 200, content_type = None, content = ''PNG''\<rparr>"
  "requests_get example_world ''http://example.com/plain''
     = Inr \<lparr>status_code = 200, content_type = Some ''text/plain'', content = ''hi''\<rparr>"
  "requests_get example_world ''http://example.com/upper''
     = Inr \<lparr>status_code = 200, content_type = Some ''IMAGE/PNG'', content = ''PNG''\<rparr>"
  "requests_get example_world ''http://example.com/logo.png''
     = Inr \<lparr>status_code = 200, content_type = Some ''image/png'', content = ''PNG''\<rparr>"
  by (simp_all add: example_world_def example_get_def)

lemma example_major_types:
  "lower (major_type ''text/plain'') \<noteq> ''image''"
  "major_type ''text/plain'' = ''text''"
  "lower (major_type ''IMAGE/PNG'') = ''image''"
  "lower (major_type ''image/png'') = ''image''"
  by code_simp+

text \<open>
  Claim C3. For a file that can be read, \<open>_fetch_local_image_and_mime\<close> returns what the
  ordered three-stage fallback of the specification returns, the first opinion
  deciding: (1) the sniffed type, an error naming its major type when it is not an image
  type; (2) \<open><svg\<close> in the lower-cased first 500 bytes gives \<open>image/svg+xml\<close>; (3) the
  type guessed from the name, an error when its major type is not \<open>image\<close>, and \<open>not
  able to determine file type\<close> without a guess. \<open>_embed_image\<close> does the same for a
  reference without scheme and returns the data URI. In particular a file sniffed as
  \<open>image/png\<close> resolves to \<open>image/png\<close> whatever its name.
\<close>

theorem local_mime_fallback:
  "(read_file w path = Inr data \<longrightarrow>
      fetch_local_image_and_mime w path = (spec_local_mime w path data, [FileRead path]))
   \<and> (read_file w path = Inr data \<and> \<not> startswith path ''data:''
        \<and> urlparse_scheme w path = Inr [] \<longrightarrow>
      embed_image w path =
        (map_sum id data_uri (spec_local_mime w path data), [EmbedImage path, FileRead path]))
   \<and> (read_file w path = Inr data \<and> filetype_guess w data = Some ''image/png'' \<longrightarrow>
      fetch_local_image_and_mime w path = (Inr (data, ''image/png''), [FileRead path]))"
proof (intro conjI impI)
  assume "read_file w path = Inr data"
  then show "fetch_local_image_and_mime w path = (spec_local_mime w path data, [FileRead path])"
    by (rule local_refines_spec)
next
  assume h: "read_file w path = Inr data \<and> \<not> startswith path ''data:''
        \<and> urlparse_scheme w path = Inr []"
  then have "fetch_local_image_and_mime w path = (spec_local_mime w path data, [FileRead path])"
    using local_refines_spec by blast
  with h show "embed_image w path =
        (map_sum id data_uri (spec_local_mime w path data), [EmbedImage path, FileRead path])"
    by (cases "spec_local_mime w path data") (simp_all add: embed_image_local)
next
  assume h: "read_file w path = Inr data \<and> filetype_guess w data = Some ''image/png''"
  then have "fetch_local_image_and_mime w path = (spec_local_mime w path data, [FileRead path])"
    using local_refines_spec by blast
  moreover from h have "spec_local_mime w path data = Inr (data, ''image/png'')"
    by (simp add: spec_local_mime_def sniff_stage_def startswith_def)
  ultimately show "fetch_local_image_and_mime w path = (Inr (data, ''image/png''), [FileRead path])"
    by simp
qed

theorem local_mime_fallback_witness:
  "read_file example_world ''pic.txt'' = Inr (CHR 0x89 # ''PNG data'')
   \<and> filetype_guess example_world (CHR 0x89 # ''PNG data'') = Some ''image/png''
   \<and> mimetypes_guess_type example_world ''pic.txt'' = Some ''text/plain''
   \<and> fetch_local_image_and_mime example_world ''pic.txt''
       = (Inr (CHR 0x89 # ''PNG data'', ''image/png''), [FileRead ''pic.txt''])
   \<and> read_file example_world ''doc.png'' = Inr ''%PDF-1.4 <svg''
   \<and> fetch_local_image_and_mime example_world ''doc.png''
       = (Inl (ValueError (msg_expected_image ''application'')), [FileRead ''doc.png''])
   \<and> read_file example_world ''drawing.txt'' = Inr ''<SVG width=1></SVG>''
   \<and> fetch_local_image_and_mime example_world ''drawing.txt''
       = (Inr (''<SVG width=1></SVG>'', ''image/svg+xml''), [FileRead ''drawing.txt''])
   \<and> read_file example_world ''photo.png'' = Inr ''raw pixels''
   \<and> fetch_local_image_and_mime example_world ''photo.png''
       = (Inr (''raw pixels'', ''image/png''), [FileRead ''photo.png''])
   \<and> read_file example_world ''notes.txt'' = Inr ''plain text''
   \<and> fetch_local_image_and_mime example_world ''notes.txt''
       = (Inl (ValueError (msg_expected_image ''text'')), [FileRead ''notes.txt''])
   \<and> read_file example_world ''blob'' = Inr ''raw bytes''
   \<and> fetch_local_image_and_mime example_world ''blob''
       = (Inl (ValueError msg_not_determined), [FileRead ''blob''])
   \<and> \<not> startswith ''drawing.txt'' ''data:''
   \<and> urlparse_scheme example_world ''drawing.txt'' = Inr []
   \<and> embed_image example_world ''drawing.txt''
       = (Inr (data_uri (''<SVG width=1></SVG>'', ''image/svg+xml'')),
          [EmbedImage ''drawing.txt'', FileRead ''drawing.txt''])"
proof -
  note f = example_files and m = spec_local_mime_examples
  have g: "filetype_guess example_world (CHR 0x89 # ''PNG data'') = Some ''image/png''"
    "mimetypes_guess_type example_world ''pic.txt'' = Some ''text/plain''"
    by (simp_all add: example_world_def example_filetype_def example_mimetypes_def
          endswith_def startswith_def)
  have u: "\<not> startswith ''drawing.txt'' ''data:''"
    "urlparse_scheme example_world ''drawing.txt'' = Inr []"
    by (simp_all add: startswith_def example_world_def example_scheme_def)
  from local_mime_fallback [of example_world "''pic.txt''" "CHR 0x89 # ''PNG data''"] f(1) g(1)
  have 1: "fetch_local_image_and_mime example_world ''pic.txt''
       = (Inr (CHR 0x89 # ''PNG data'', ''image/png''), [FileRead ''pic.txt''])"
    by blast
  from local_mime_fallback [of example_world "''doc.png''" "''%PDF-1.4 <svg''"] f(2) m(2)
  have 2: "fetch_local_image_and_mime example_world ''doc.png''
       = (Inl (ValueError (msg_expected_image ''application'')), [FileRead ''doc.png''])"
    by simp
  from local_mime_fallback [of example_world "''drawing.txt''" "''<SVG width=1></SVG>''"]
    f(3) m(3) u
  have 3: "fetch_local_image_and_mime example_world ''drawing.txt''
       = (Inr (''<SVG width=1></SVG>'', ''image/svg+xml''), [FileRead ''drawing.txt''])"
    "embed_image example_world ''drawing.txt''
       = (Inr (data_uri (''<SVG width=1></SVG>'', ''image/svg+xml'')),
          [EmbedImage ''drawing.txt'', FileRead ''drawing.txt''])"
    by simp_all
  from local_mime_fallback [of example_world "''photo.png''" "''raw pixels''"] f(4) m(4)
  have 4: "fetch_local_image_and_mime example_world ''photo.png''
       = (Inr (''raw pixels'', ''image/png''), [FileRead ''photo.png''])"
    by simp
  from local_mime_fallback [of example_world "''notes.txt''" "''plain text''"] f(5) m(5)
  have 5: "fetch_local_image_and_mime example_world ''notes.txt''
       = (Inl (ValueError (msg_expected_image ''text'')), [FileRead ''notes.txt''])"
    by simp
  from local_mime_fallback [of example_world "''blob''" "''raw bytes''"] f(6) m(6)
  have 6: "fetch_local_image_and_mime example_world ''blob''
       = (Inl (ValueError msg_not_determined), [FileRead ''blob''])"
    by simp
  from f g u 1 2 3 4 5 6 show ?thesis by blast
qed

text \<open>
  Claim C2 as stated fails: for the status 404 the resolution ends with \<open>HTTPError\<close>, and
  with no \<open>ValueError\<close>.
\<close>

theorem remote_status_error_counterexample:
  "requests_get example_world ''http://example.com/missing''
     = Inr \<lparr>status_code = 404, content_type = Some ''image/png'', content = ''gone''\<rparr>
   \<and> fetch_remote_image example_world ''http://example.com/missing''
       = (Inl (HTTPError 404), [HttpGet ''http://example.com/missing''])
   \<and> \<not> (\<exists>m. fst (fetch_remote_image example_world ''http://example.com/missing'')
              = Inl (ValueError m))
   \<and> \<not> (\<exists>m. fst (embed_image example_world ''http://example.com/missing'')
              = Inl (ValueError m))"
proof -
  have s: "\<not> startswith ''http://example.com/missing'' ''data:''"
    "urlparse_scheme example_world ''http://example.com/missing'' = Inr ''http''"
    by (simp add: startswith_def, code_simp)
  have r: "fetch_remote_image example_world ''http://example.com/missing''
       = (Inl (HTTPError 404), [HttpGet ''http://example.com/missing''])"
    by (simp add: fetch_remote_image_def example_responses)
  then have "embed_image example_world ''http://example.com/missing''
       = (Inl (HTTPError 404),
          [EmbedImage ''http://example.com/missing'', HttpGet ''http://example.com/missing''])"
    using s by (simp add: embed_image_remote)
  with r example_responses(1) show ?thesis by simp
qed

text \<open>
  Claim C2, amended. For a response of \<open>requests.get\<close>: a status from 400 to 599 ends
  \<open>_fetch_remote_image\<close> with the \<open>HTTPError\<close> of \<open>raise_for_status\<close>, which is not a
  \<open>ValueError\<close>; otherwise an absent or empty \<open>Content-Type\<close> header ends it with a
  \<open>ValueError\<close>; otherwise, for a header that contains \<open>/\<close>, a major type that differs
  from \<open>image\<close> after lower-casing ends it with a \<open>ValueError\<close> naming the major type;
  and otherwise it returns the body with the header verbatim, and \<open>_embed_image\<close>, for
  a reference with scheme \<open>http\<close> or \<open>https\<close>, returns
  \<open>data:<content type>;base64,<base64 of the body>\<close>.
\<close>

theorem remote_image_resolution:
  "requests_get w url = Inr resp \<longrightarrow>
     (400 \<le> status_code resp \<and> status_code resp < 600 \<longrightarrow>
        fetch_remote_image w url = (Inl (HTTPError (status_code resp)), [HttpGet url]))
     \<and> (\<not> (400 \<le> status_code resp \<and> status_code resp < 600)
          \<and> \<not> truthy (response.content_type resp) \<longrightarrow>
        fetch_remote_image w url = (Inl (ValueError msg_no_content_type), [HttpGet url]))
     \<and> (\<not> (400 \<le> status_code resp \<and> status_code resp < 600)
          \<and> truthy (response.content_type resp)
          \<and> CHR ''/'' \<in> set (the (response.content_type resp))
          \<and> lower (major_type (the (response.content_type resp))) \<noteq> ''image'' \<longrightarrow>
        fetch_remote_image w url
          = (Inl (ValueError (msg_expected_image
                    (major_type (the (response.content_type resp))))), [HttpGet url]))
     \<and> (\<not> (400 \<le> status_code resp \<and> status_code resp < 600)
          \<and> truthy (response.content_type resp)
          \<and> CHR ''/'' \<in> set (the (response.content_type resp))
          \<and> lower (major_type (the (response.content_type resp))) = ''image'' \<longrightarrow>
        fetch_remote_image w url
          = (Inr (content resp, the (response.content_type resp)), [HttpGet url])
        \<and> (\<not> startswith url ''data:''
             \<and> (urlparse_scheme w url = Inr ''http'' \<or> urlparse_scheme w url = Inr ''https'')
           \<longrightarrow> embed_image w url
                 = (Inr (''data:'' @ the (response.content_type resp) @ '';base64,''
                         @ b64encode (content resp)),
                    [EmbedImage url, HttpGet url])))"
proof (intro impI conjI)
  assume g: "requests_get w url = Inr resp"
  { assume "400 \<le> status_code resp \<and> status_code resp < 600"
    then show "fetch_remote_image w url = (Inl (HTTPError (status_code resp)), [HttpGet url])"
      by (rule fetch_remote_cases(1) [OF g]) }
  { assume "\<not> (400 \<le> status_code resp \<and> status_code resp < 600)
          \<and> \<not> truthy (response.content_type resp)"
    then show "fetch_remote_image w url = (Inl (ValueError msg_no_content_type), [HttpGet url])"
      using fetch_remote_cases(2) [OF g] by blast }
  { assume "\<not> (400 \<le> status_code resp \<and> status_code resp < 600)
          \<and> truthy (response.content_type resp)
          \<and> CHR ''/'' \<in> set (the (response.content_type resp))
          \<and> lower (major_type (the (response.content_type resp))) \<noteq> ''image''"
    then show "fetch_remote_image w url
          = (Inl (ValueError (msg_expected_image
                    (major_type (the (response.content_type resp))))), [HttpGet url])"
      using fetch_remote_cases(3) [OF g] by blast }
  { assume h: "\<not> (400 \<le> status_code resp \<and> status_code resp < 600)
          \<and> truthy (response.content_type resp)
          \<and> CHR ''/'' \<in> set (the (response.content_type resp))
          \<and> lower (major_type (the (response.content_type resp))) = ''image''"
    then show r: "fetch_remote_image w url
          = (Inr (content resp, the (response.content_type resp)), [HttpGet url])"
      using fetch_remote_cases(4) [OF g] by blast
    assume "\<not> startswith url ''data:''
             \<and> (urlparse_scheme w url = Inr ''http'' \<or> urlparse_scheme w url = Inr ''https'')"
    then show "embed_image w url
                 = (Inr (''data:'' @ the (response.content_type resp) @ '';base64,''
                         @ b64encode (content resp)),
                    [EmbedImage url, HttpGet url])"
      using r embed_image_remote [of url w] by (auto simp: data_uri_def) }
qed

theorem remote_image_resolution_witness:
  "requests_get example_world ''http://example.com/missing''
     = Inr \<lparr>status_code = 404, content_type = Some ''image/png'', content = ''gone''\<rparr>
   \<and> fetch_remote_image example_world ''http://example.com/missing''
       = (Inl (HTTPError 404), [HttpGet ''http://example.com/missing''])
   \<and> requests_get example_world ''http://example.com/untyped''
     = Inr \<lparr>status_code = 200, content_type = None, content = ''PNG''\<rparr>
   \<and> fetch_remote_image example_world ''http://example.com/untyped''
       = (Inl (ValueError msg_no_content_type), [HttpGet ''http://example.com/untyped''])
   \<and> requests_get example_world ''http://example.com/plain''
     = Inr \<lparr>status_code = 200, content_type = Some ''text/plain'', content = ''hi''\<rparr>
   \<and> fetch_remote_image example_world ''http://example.com/plain''
       = (Inl (ValueError (msg_expected_image ''text'')), [HttpGet ''http://example.com/plain''])
   \<and> requests_get example_world ''http://example.com/upper''
     = Inr \<lparr>status_code = 200, content_type = Some ''IMAGE/PNG'', content = ''PNG''\<rparr>
   \<and> fetch_remote_image example_world ''http://example.com/upper''
       = (Inr (''PNG'', ''IMAGE/PNG''), [HttpGet ''http://example.com/upper''])
   \<and> requests_get example_world ''http://example.com/logo.png''
     = Inr \<lparr>status_code = 200, content_type = Some ''image/png'', content = ''PNG''\<rparr>
   \<and> \<not> startswith ''http://example.com/logo.png'' ''data:''
   \<and> urlparse_scheme example_world ''http://example.com/logo.png'' = Inr ''http''
   \<and> embed_image example_world ''http://example.com/logo.png''
       = (Inr ''data:image/png;base64,UE5H'',
          [EmbedImage ''http://example.com/logo.png'', HttpGet ''http://example.com/logo.png''])"
proof -
  note g = example_responses and t = example_major_types
  have s: "\<not> startswith ''http://example.com/logo.png'' ''data:''"
    "urlparse_scheme example_world ''http://example.com/logo.png'' = Inr ''http''"
    by (simp add: startswith_def, code_simp)
  from remote_image_resolution [where w = example_world and url = "''http://example.com/missing''"
      and resp = "\<lparr>status_code = 404, content_type = Some ''image/png'', content = ''gone''\<rparr>"]
    g(1)
  have 1: "fetch_remote_image example_world ''http://example.com/missing''
       = (Inl (HTTPError 404), [HttpGet ''http://example.com/missing''])"
    by simp
  from remote_image_resolution [where w = example_world and url = "''http://example.com/untyped''"
      and resp = "\<lparr>status_code = 200, content_type = None, content = ''PNG''\<rparr>"]
    g(2)
  have 2: "fetch_remote_image example_world ''http://example.com/untyped''
       = (Inl (ValueError msg_no_content_type), [HttpGet ''http://example.com/untyped''])"
    by simp
  from remote_image_resolution [where w = example_world and url = "''http://example.com/plain''"
      and resp = "\<lparr>status_code = 200, content_type = Some ''text/plain'', content = ''hi''\<rparr>"]
    g(3) t(1,2)
  have 3: "fetch_remote_image example_world ''http://example.com/plain''
       = (Inl (ValueError (msg_expected_image ''text'')), [HttpGet ''http://example.com/plain''])"
    by simp
  from remote_image_resolution [where w = example_world and url = "''http://example.com/upper''"
      and resp = "\<lparr>status_code = 200, content_type = Some ''IMAGE/PNG'', content = ''PNG''\<rparr>"]
    g(4) t(3)
  have 4: "fetch_remote_image example_world ''http://example.com/upper''
       = (Inr (''PNG'', ''IMAGE/PNG''), [HttpGet ''http://example.com/upper''])"
    by simp
  from remote_image_resolution [where w = example_world and url = "''http://example.com/logo.png''"
      and resp = "\<lparr>status_code = 200, content_type = Some ''image/png'', content = ''PNG''\<rparr>"]
    g(5) t(4) s
  have 5: "embed_image example_world ''http://example.com/logo.png''
       = (Inr ''data:image/png;base64,UE5H'',
          [EmbedImage ''http://example.com/logo.png'', HttpGet ''http://example.com/logo.png''])"
    by (simp add: b64_digit_def b64_alphabet_def)
  from g s 1 2 3 4 5 show ?thesis by blast
qed

subsection \<open>SVG normalization\<close>





































lemma toxml_simple_element:
  assumes "simple [Element tag attrs cs]"
  shows "toxml (Element tag attrs cs) = Inr t \<longleftrightarrow>
           (if cs = [] then t = ''<'' @ tag @ ''/>''
            else \<exists>body. toxml_list cs = Inr body
                   \<and> t = ''<'' @ tag @ ''>'' @ body @ ''</'' @ tag @ ''>'')"
  using assms by (auto split: sum.splits)
























end
